theory Spec2Isabelle
  imports
    Complex_Main
    "HOL-Library.Char_ord"
    "HOL-Library.List_Lexorder"
    "HOL-Library.Multiset"
    "HOL-Library.Product_Lexorder"
    "HOL-Library.Sublist"
begin

section \<open>Values, exceptions and the runtime\<close>

text \<open>
  A stored record is a Python dict from field names to BSON values.  The values that
  occur in product records are scalars: null (Python \<open>None\<close>), booleans, integers,
  doubles, strings and object identifiers.  Doubles are carried as the rational numbers
  they denote (no rounding, no NaN or infinity); strings are byte strings (UTF-8), so
  an ASCII letter is one \<open>char\<close>.  Arrays and nested documents are not part of the model.
\<close>

datatype objectid = ObjectId string

datatype bson =
    BNull
  | BBool bool
  | BInt int
  | BDouble rat
  | BStr string
  | BOid objectid

type_synonym doc = "string \<rightharpoonup> bson"

text \<open>
  Every exception of the model is a subclass of Python's \<open>Exception\<close>: the three
  raised by \<open>float\<close>, the validation error of the \<open>ProductOut\<close> constructor, the
  driver's errors (with their message) and the \<open>HTTPException\<close> the handlers raise
  themselves (status code and detail).
\<close>

datatype exn =
    TypeError
  | ValueError
  | OverflowError
  | ValidationError
  | PyMongoError string
  | HTTPException nat string

text \<open>
  Three library functions the handlers call are parameters of the model, because their
  behaviour is too large to write down here (the grammar of floating-point literals, the
  shortest decimal representation of a double, the pattern language of the store):
  \<^item> \<open>float_of_str s\<close> is \<open>float(s)\<close> for a string, \<open>None\<close> when it raises \<open>ValueError\<close>;
  \<^item> \<open>str_of_float x\<close> is \<open>str(x)\<close> for a float;
  \<^item> \<open>regex_compile p opts\<close> is the store's \<open>$regex\<close> operator for pattern \<open>p\<close> with
    options \<open>opts\<close>: \<open>None\<close> when the store rejects the pattern, otherwise the predicate
    "the pattern has a match somewhere in this string".
\<close>

record runtime =
  float_of_str :: "string \<Rightarrow> rat option"
  str_of_float :: "rat \<Rightarrow> string"
  regex_compile :: "string \<Rightarrow> string \<Rightarrow> (string \<Rightarrow> bool) option"

subsection \<open>Python's \<open>dict.get\<close>, \<open>float\<close>, \<open>bool\<close> and \<open>str\<close>\<close>

definition dict_get :: "doc \<Rightarrow> string \<Rightarrow> bson \<Rightarrow> bson" where
  "dict_get d k dflt = (case d k of None \<Rightarrow> dflt | Some v \<Rightarrow> v)"

text \<open>
  \<open>float(n)\<close> for an integer is the double nearest to \<open>n\<close>: the integers below 2 to
  the power 53 are doubles themselves, a larger one is rounded to 53 significant bits, a tie
  going to the even mantissa, and \<open>OverflowError\<close> is raised when the result is beyond the
  largest double.
\<close>

fun bit_length :: "nat \<Rightarrow> nat" where
  "bit_length n = (if n = 0 then 0 else Suc (bit_length (n div 2)))"

definition nearest_double :: "nat \<Rightarrow> nat" where
  "nearest_double a =
     (if a < 2 ^ 53 then a
      else (let e = bit_length a - 53; q = a div 2 ^ e; r = a mod 2 ^ e
            in if 2 ^ (e - 1) < r \<or> (r = 2 ^ (e - 1) \<and> odd q) then (q + 1) * 2 ^ e
               else q * 2 ^ e))"

definition float_of_int :: "int \<Rightarrow> exn + rat" where
  "float_of_int n =
     (let x = nearest_double (nat \<bar>n\<bar>)
      in if 2 ^ 1024 \<le> x then Inl OverflowError
         else Inr (if n < 0 then - of_nat x else of_nat x))"

fun py_float :: "runtime \<Rightarrow> bson \<Rightarrow> exn + rat" where
  "py_float R BNull = Inl TypeError"
| "py_float R (BBool b) = Inr (if b then 1 else 0)"
| "py_float R (BInt n) = float_of_int n"
| "py_float R (BDouble x) = Inr x"
| "py_float R (BStr s) = (case float_of_str R s of None \<Rightarrow> Inl ValueError | Some x \<Rightarrow> Inr x)"
| "py_float R (BOid i) = Inl TypeError"

fun py_bool :: "bson \<Rightarrow> bool" where
  "py_bool BNull = False"
| "py_bool (BBool b) = b"
| "py_bool (BInt n) = (n \<noteq> 0)"
| "py_bool (BDouble x) = (x \<noteq> 0)"
| "py_bool (BStr s) = (s \<noteq> [])"
| "py_bool (BOid i) = True"

fun nat_digits :: "nat \<Rightarrow> string" where
  "nat_digits n =
     (if n < 10 then [char_of (48 + n)]
      else nat_digits (n div 10) @ [char_of (48 + n mod 10)])"

definition str_of_int :: "int \<Rightarrow> string" where
  "str_of_int n = (if n < 0 then CHR ''-'' # nat_digits (nat (- n)) else nat_digits (nat n))"

fun py_str :: "runtime \<Rightarrow> bson \<Rightarrow> string" where
  "py_str R BNull = ''None''"
| "py_str R (BBool b) = (if b then ''True'' else ''False'')"
| "py_str R (BInt n) = str_of_int n"
| "py_str R (BDouble x) = str_of_float R x"
| "py_str R (BStr s) = s"
| "py_str R (BOid (ObjectId h)) = h"

subsection \<open>The constructor of \<open>ObjectId\<close>\<close>

text \<open>
  \<open>ObjectId(s)\<close> for a string \<open>s\<close> accepts a string of 24 characters that
  \<open>bytes.fromhex\<close> decodes, and raises otherwise.  \<open>bytes.fromhex\<close> reads pairs of
  hexadecimal digits and skips ASCII whitespace before a pair (not between the two
  digits of one); every other character makes it raise, a character outside ASCII among
  them, so that it makes no difference that the length is counted in bytes here.  The
  identifier holds the decoded bytes, carried here as their hexadecimal digits in lower
  case, which is also what \<open>str\<close> of the identifier returns.
\<close>

definition is_digit :: "char \<Rightarrow> bool" where
  "is_digit c = (48 \<le> (of_char c :: nat) \<and> (of_char c :: nat) \<le> 57)"

definition ascii_lower :: "char \<Rightarrow> char" where
  "ascii_lower c =
     (if 65 \<le> (of_char c :: nat) \<and> (of_char c :: nat) \<le> 90
      then char_of (of_char c + 32 :: nat)
      else c)"

definition is_hex :: "char \<Rightarrow> bool" where
  "is_hex c =
     (is_digit c \<or>
      (97 \<le> (of_char (ascii_lower c) :: nat) \<and> (of_char (ascii_lower c) :: nat) \<le> 102))"

definition is_space :: "char \<Rightarrow> bool" where
  "is_space c = ((of_char c :: nat) = 32 \<or> (9 \<le> (of_char c :: nat) \<and> (of_char c :: nat) \<le> 13))"

fun fromhex :: "string \<Rightarrow> string option" where
  "fromhex [] = Some []"
| "fromhex [c] = (if is_space c then Some [] else None)"
| "fromhex (c # c' # cs) =
     (if is_space c then fromhex (c' # cs)
      else if is_hex c \<and> is_hex c'
      then map_option (\<lambda>hs. ascii_lower c # ascii_lower c' # hs) (fromhex cs)
      else None)"

definition parse_objectid :: "string \<Rightarrow> objectid option" where
  "parse_objectid str =
     (if length str = 24 then map_option ObjectId (fromhex str) else None)"

section \<open>The Document Normalizer\<close>

record ProductOut =
  product_id :: string
  title :: string
  description :: "string option"
  price :: rat
  category :: string
  in_stock :: bool
  image_url :: "string option"
  brand :: "string option"
  rating :: "rat option"

text \<open>
  The constructor of the pydantic model validates its arguments.  \<open>id\<close>, \<open>price\<close>,
  \<open>in_stock\<close> and \<open>rating\<close> arrive already converted by \<open>str\<close>, \<open>float\<close> and
  \<open>bool\<close>; the string fields arrive as stored.  A \<open>str\<close> field accepts a string only,
  an \<open>Optional[str]\<close> field a string or \<open>None\<close>.
\<close>

fun valid_str :: "bson \<Rightarrow> string option" where
  "valid_str (BStr s) = Some s"
| "valid_str v = None"

fun valid_opt_str :: "bson \<Rightarrow> string option option" where
  "valid_opt_str BNull = Some None"
| "valid_opt_str (BStr s) = Some (Some s)"
| "valid_opt_str v = None"

definition ProductOut_new ::
  "string \<Rightarrow> bson \<Rightarrow> bson \<Rightarrow> rat \<Rightarrow> bson \<Rightarrow> bool \<Rightarrow> bson \<Rightarrow> bson \<Rightarrow> rat option \<Rightarrow> exn + ProductOut"
where
  "ProductOut_new i t ds p c s img b r =
     (case (valid_str t, valid_opt_str ds, valid_str c, valid_opt_str img, valid_opt_str b) of
        (Some t', Some ds', Some c', Some img', Some b') \<Rightarrow>
          Inr \<lparr>product_id = i, title = t', description = ds', price = p, category = c',
               in_stock = s, image_url = img', brand = b', rating = r\<rparr>
      | _ \<Rightarrow> Inl ValidationError)"

text \<open>
  \<open>serialize_product\<close>: the keyword arguments are evaluated in the order written, so an
  exception of \<open>float\<close> on the price comes first, then one on the rating, then the
  validation of the constructor.
\<close>

definition serialize_product :: "runtime \<Rightarrow> doc \<Rightarrow> exn + ProductOut" where
  "serialize_product R d =
     (case py_float R (dict_get d ''price'' (BInt 0)) of
        Inl e \<Rightarrow> Inl e
      | Inr p \<Rightarrow>
          (case (if dict_get d ''rating'' BNull \<noteq> BNull
                 then map_sum id Some (py_float R (dict_get d ''rating'' (BInt 0)))
                 else Inr None) of
             Inl e \<Rightarrow> Inl e
           | Inr r \<Rightarrow>
               ProductOut_new
                 (py_str R (dict_get d ''_id'' BNull))
                 (dict_get d ''title'' (BStr ''''))
                 (dict_get d ''description'' BNull)
                 p
                 (dict_get d ''category'' (BStr ''General''))
                 (py_bool (dict_get d ''in_stock'' (BBool True)))
                 (dict_get d ''image_url'' BNull)
                 (dict_get d ''brand'' BNull)
                 r))"

section \<open>The store\<close>

text \<open>
  Modelled from the spec: the store behind the handle \<open>db\<close> of the module \<open>database\<close>,
  and the driver calls the handlers make on it; neither is in the repository.  The
  handle is a parameter of every handler and is \<open>None\<close> when the store is not
  configured.  A configured store holds the collection \<open>product\<close> as the list of its
  records in natural (insertion) order.  Every call of the driver is one round trip: it
  is appended to \<open>calls\<close>, and its fate is the next entry of \<open>pending\<close> (no entry left:
  it succeeds).  A failed round trip raises the driver's error with the given message;
  \<open>Partial k\<close> is a bulk write that fails after its first \<open>k\<close> records were written.
\<close>

datatype query =
    MatchAll
  | Or "query list"
  | Regex string string string

datatype call =
    CountDocuments
  | InsertMany "doc list"
  | Find query
  | FindOne objectid
  | ListCollectionNames

datatype outcome =
    Success
  | Failure string
  | Partial nat string

record store =
  product :: "doc list"
  name :: string
  collection_names :: "string list"
  next_oid :: nat
  pending :: "outcome list"
  calls :: "call list"

definition round_trip :: "call \<Rightarrow> store \<Rightarrow> outcome \<times> store" where
  "round_trip c s =
     (case pending s of
        [] \<Rightarrow> (Success, s\<lparr>calls := calls s @ [c]\<rparr>)
      | r # rs \<Rightarrow> (r, s\<lparr>pending := rs, calls := calls s @ [c]\<rparr>))"

subsection \<open>Queries\<close>

text \<open>
  \<open>{}\<close> is \<open>MatchAll\<close>, \<open>{"$or": qs}\<close> is \<open>Or qs\<close> and
  \<open>{f: {"$regex": p, "$options": o}}\<close> is \<open>Regex f p o\<close>.  A regex condition holds for a
  record whose field \<open>f\<close> is a string in which the pattern has a match; a missing field
  or a value of another type does not match.  The store rejects a query with a pattern
  it cannot compile, and an empty \<open>$or\<close>.
\<close>

fun query_ok :: "runtime \<Rightarrow> query \<Rightarrow> bool" where
  "query_ok R MatchAll = True"
| "query_ok R (Or qs) = (qs \<noteq> [] \<and> (\<forall>q \<in> set qs. query_ok R q))"
| "query_ok R (Regex f p opts) = (case regex_compile R p opts of None \<Rightarrow> False | Some m \<Rightarrow> True)"

fun matches :: "runtime \<Rightarrow> query \<Rightarrow> doc \<Rightarrow> bool" where
  "matches R MatchAll d = True"
| "matches R (Or qs) d = (\<exists>q \<in> set qs. matches R q d)"
| "matches R (Regex f p opts) d =
     (case d f of
        Some (BStr s) \<Rightarrow> (case regex_compile R p opts of None \<Rightarrow> False | Some m \<Rightarrow> m s)
      | _ \<Rightarrow> False)"

subsection \<open>Sort order\<close>

text \<open>
  The store compares values of different types by type first (null, which a missing
  field counts as, before numbers before strings before object identifiers before
  booleans), numbers by value and strings byte by byte.
\<close>

fun bson_key :: "bson \<Rightarrow> nat \<times> rat \<times> string" where
  "bson_key BNull = (1, 0, [])"
| "bson_key (BInt n) = (2, of_int n, [])"
| "bson_key (BDouble x) = (2, x, [])"
| "bson_key (BStr s) = (3, 0, s)"
| "bson_key (BOid (ObjectId h)) = (4, 0, h)"
| "bson_key (BBool b) = (5, (if b then 1 else 0), [])"

definition sort_value :: "string \<Rightarrow> doc \<Rightarrow> nat \<times> rat \<times> string" where
  "sort_value f d = bson_key (dict_get d f BNull)"

subsection \<open>Driver calls\<close>

definition count_documents :: "store \<Rightarrow> (exn + nat) \<times> store" where
  "count_documents s =
     (case round_trip CountDocuments s of
        (Success, s') \<Rightarrow> (Inr (length (product s')), s')
      | (Failure msg, s') \<Rightarrow> (Inl (PyMongoError msg), s')
      | (Partial k msg, s') \<Rightarrow> (Inl (PyMongoError msg), s'))"

fun hex_digits :: "nat \<Rightarrow> nat \<Rightarrow> string" where
  "hex_digits 0 n = []"
| "hex_digits (Suc k) n =
     hex_digits k (n div 16) @ [char_of (if n mod 16 < 10 then 48 + n mod 16 else 87 + n mod 16)]"

definition fresh_oid :: "nat \<Rightarrow> objectid" where
  "fresh_oid n = ObjectId (hex_digits 24 n)"

text \<open>\<open>insert_many\<close> gives every record that has no \<open>_id\<close> a fresh identifier.\<close>

fun assign_ids :: "nat \<Rightarrow> doc list \<Rightarrow> doc list" where
  "assign_ids n [] = []"
| "assign_ids n (d # ds) =
     (case d ''_id'' of
        None \<Rightarrow> d(''_id'' \<mapsto> BOid (fresh_oid n)) # assign_ids (Suc n) ds
      | Some v \<Rightarrow> d # assign_ids (Suc n) ds)"

definition write_docs :: "doc list \<Rightarrow> store \<Rightarrow> store" where
  "write_docs ds s =
     (if ds = [] then s
      else s\<lparr>product := product s @ ds,
             collection_names :=
               (if ''product'' \<in> set (collection_names s) then collection_names s
                else collection_names s @ [''product''])\<rparr>)"

definition insert_many :: "doc list \<Rightarrow> store \<Rightarrow> (exn + unit) \<times> store" where
  "insert_many ds s =
     (if ds = [] then (Inl TypeError, s)
      else
        (let ds' = assign_ids (next_oid s) ds in
         case round_trip (InsertMany ds') (s\<lparr>next_oid := next_oid s + length ds\<rparr>) of
           (Success, s') \<Rightarrow> (Inr (), write_docs ds' s')
         | (Failure msg, s') \<Rightarrow> (Inl (PyMongoError msg), s')
         | (Partial k msg, s') \<Rightarrow> (Inl (PyMongoError msg), write_docs (take k ds') s')))"

text \<open>
  Modelled from the spec: \<open>find(q).sort(f)\<close> returns the records that satisfy the query
  in ascending order of the field, and records with equal sort values keep their natural
  order (the sort is stable).
\<close>

definition find_sorted :: "runtime \<Rightarrow> query \<Rightarrow> string \<Rightarrow> store \<Rightarrow> (exn + doc list) \<times> store" where
  "find_sorted R q f s =
     (case round_trip (Find q) s of
        (Success, s') \<Rightarrow>
          (if query_ok R q
           then (Inr (sort_key (sort_value f) (filter (matches R q) (product s'))), s')
           else (Inl (PyMongoError ''Regular expression is invalid''), s'))
      | (Failure msg, s') \<Rightarrow> (Inl (PyMongoError msg), s')
      | (Partial k msg, s') \<Rightarrow> (Inl (PyMongoError msg), s'))"

definition find_one :: "objectid \<Rightarrow> store \<Rightarrow> (exn + doc option) \<times> store" where
  "find_one i s =
     (case round_trip (FindOne i) s of
        (Success, s') \<Rightarrow> (Inr (find (\<lambda>d. d ''_id'' = Some (BOid i)) (product s')), s')
      | (Failure msg, s') \<Rightarrow> (Inl (PyMongoError msg), s')
      | (Partial k msg, s') \<Rightarrow> (Inl (PyMongoError msg), s'))"

text \<open>The error of \<open>list_collection_names\<close> is kept as its message, \<open>str(e)\<close>.\<close>

definition list_collection_names :: "store \<Rightarrow> (string + string list) \<times> store" where
  "list_collection_names s =
     (case round_trip ListCollectionNames s of
        (Success, s') \<Rightarrow> (Inr (collection_names s'), s')
      | (Failure msg, s') \<Rightarrow> (Inl msg, s')
      | (Partial k msg, s') \<Rightarrow> (Inl msg, s'))"

section \<open>Seeding at startup\<close>

definition sample_products :: "doc list" where
  "sample_products =
    [
     map_of
       [(''title'', BStr ''Classic Tee''),
        (''description'', BStr ''Soft cotton tee with a perfect everyday fit.''),
        (''price'', BDouble 19.99),
        (''category'', BStr ''Apparel''),
        (''in_stock'', BBool True),
        (''image_url'', BStr ''https://images.unsplash.com/photo-1512436991641-6745cdb1723f?q=80&w=1200&auto=format&fit=crop''),
        (''brand'', BStr ''BlueWave''),
        (''rating'', BDouble 4.5)],
     map_of
       [(''title'', BStr ''Running Sneakers''),
        (''description'', BStr ''Lightweight shoes designed for comfort and speed.''),
        (''price'', BDouble 59.99),
        (''category'', BStr ''Footwear''),
        (''in_stock'', BBool True),
        (''image_url'', BStr ''https://images.unsplash.com/photo-1542291026-7eec264c27ff?q=80&w=1200&auto=format&fit=crop''),
        (''brand'', BStr ''SwiftStep''),
        (''rating'', BDouble 4.3)],
     map_of
       [(''title'', BStr ''Wireless Headphones''),
        (''description'', BStr ''Noise-cancelling over-ear headphones with 30h battery.''),
        (''price'', BDouble 129.0),
        (''category'', BStr ''Electronics''),
        (''in_stock'', BBool True),
        (''image_url'', BStr ''https://images.unsplash.com/photo-1518442031670-681f9a19dbcc?q=80&w=1200&auto=format&fit=crop''),
        (''brand'', BStr ''SonicX''),
        (''rating'', BDouble 4.7)],
     map_of
       [(''title'', BStr ''Smart Watch''),
        (''description'', BStr ''Track health, messages, and workouts with ease.''),
        (''price'', BDouble 149.99),
        (''category'', BStr ''Electronics''),
        (''in_stock'', BBool True),
        (''image_url'', BStr ''https://images.unsplash.com/photo-1511732351157-1865efcb7b7b?q=80&w=1200&auto=format&fit=crop''),
        (''brand'', BStr ''PulseOne''),
        (''rating'', BDouble 4.2)],
     map_of
       [(''title'', BStr ''Backpack''),
        (''description'', BStr ''Durable backpack with multiple compartments.''),
        (''price'', BDouble 39.5),
        (''category'', BStr ''Accessories''),
        (''in_stock'', BBool True),
        (''image_url'', BStr ''https://images.unsplash.com/photo-1511174511562-5f7f18b874f8?q=80&w=1200&auto=format&fit=crop''),
        (''brand'', BStr ''TrailPro''),
        (''rating'', BDouble 4.1)],
     map_of
       [(''title'', BStr ''Sunglasses''),
        (''description'', BStr ''UV400 polarized sunglasses with classic style.''),
        (''price'', BDouble 24.99),
        (''category'', BStr ''Accessories''),
        (''in_stock'', BBool True),
        (''image_url'', BStr ''https://images.unsplash.com/photo-1511499767150-a48a237f0083?q=80&w=1200&auto=format&fit=crop''),
        (''brand'', BStr ''SunRay''),
        (''rating'', BDouble 4.0)],
     map_of
       [(''title'', BStr ''Water Bottle''),
        (''description'', BStr ''Insulated stainless steel bottle (1L).''),
        (''price'', BDouble 18.0),
        (''category'', BStr ''Outdoors''),
        (''in_stock'', BBool True),
        (''image_url'', BStr ''https://images.unsplash.com/photo-1542736667-069246bdbc74?q=80&w=1200&auto=format&fit=crop''),
        (''brand'', BStr ''HydroFlow''),
        (''rating'', BDouble 4.6)],
     map_of
       [(''title'', BStr ''Desk Lamp''),
        (''description'', BStr ''Adjustable LED lamp with warm and cool modes.''),
        (''price'', BDouble 32.0),
        (''category'', BStr ''Home''),
        (''in_stock'', BBool True),
        (''image_url'', BStr ''https://images.unsplash.com/photo-1507473885765-e6ed057f782c?q=80&w=1200&auto=format&fit=crop''),
        (''brand'', BStr ''GlowLite''),
        (''rating'', BDouble 4.4)]
    ]"

text \<open>
  The body of the \<open>try\<close> statement, then the handler itself: \<open>except Exception: pass\<close>
  turns every exception of the body into a normal return.
\<close>

definition seed_body :: "store \<Rightarrow> (exn + unit) \<times> store" where
  "seed_body s =
     (case count_documents s of
        (Inl e, s') \<Rightarrow> (Inl e, s')
      | (Inr count', s') \<Rightarrow>
          (if count' = 0
           then (if sample_products \<noteq> [] then insert_many sample_products s' else (Inr (), s'))
           else (Inr (), s')))"

definition seed_products_if_needed :: "store option \<Rightarrow> (exn + unit) \<times> store option" where
  "seed_products_if_needed db =
     (case db of
        None \<Rightarrow> (Inr (), None)
      | Some s \<Rightarrow>
          (case seed_body s of
             (Inl e, s') \<Rightarrow> (Inr (), Some s')
           | (Inr u, s') \<Rightarrow> (Inr (), Some s')))"

section \<open>The catalog handlers\<close>

fun collect :: "('a \<Rightarrow> exn + 'b) \<Rightarrow> 'a list \<Rightarrow> exn + 'b list" where
  "collect f [] = Inr []"
| "collect f (x # xs) =
     (case f x of
        Inl e \<Rightarrow> Inl e
      | Inr y \<Rightarrow> (case collect f xs of Inl e \<Rightarrow> Inl e | Inr ys \<Rightarrow> Inr (y # ys)))"

text \<open>
  The filter of \<open>list_products\<close>.  \<open>if q:\<close> is false for \<open>None\<close> and for the empty
  string; otherwise the term itself is the pattern of the three conditions.
\<close>

definition build_filter :: "string option \<Rightarrow> query" where
  "build_filter q =
     (case q of
        None \<Rightarrow> MatchAll
      | Some t \<Rightarrow>
          (if t = [] then MatchAll
           else Or [Regex ''title'' t ''i'',
                    Regex ''category'' t ''i'',
                    Regex ''brand'' t ''i'']))"

definition list_products ::
  "runtime \<Rightarrow> store option \<Rightarrow> string option \<Rightarrow> (exn + ProductOut list) \<times> store option"
where
  "list_products R db q =
     (case db of
        None \<Rightarrow> (Inl (HTTPException 500 ''Database not configured''), None)
      | Some s \<Rightarrow>
          (case find_sorted R (build_filter q) ''title'' s of
             (Inl e, s') \<Rightarrow> (Inl e, Some s')
           | (Inr docs, s') \<Rightarrow> (collect (serialize_product R) docs, Some s')))"

definition get_product ::
  "runtime \<Rightarrow> store option \<Rightarrow> string \<Rightarrow> (exn + ProductOut) \<times> store option"
where
  "get_product R db pid =
     (case db of
        None \<Rightarrow> (Inl (HTTPException 500 ''Database not configured''), None)
      | Some s \<Rightarrow>
          (case parse_objectid pid of
             None \<Rightarrow> (Inl (HTTPException 400 ''Invalid product id''), Some s)
           | Some oid \<Rightarrow>
               (case find_one oid s of
                  (Inl e, s') \<Rightarrow> (Inl e, Some s')
                | (Inr None, s') \<Rightarrow> (Inl (HTTPException 404 ''Product not found''), Some s')
                | (Inr (Some d), s') \<Rightarrow> (serialize_product R d, Some s'))))"

section \<open>The diagnostics endpoint\<close>

record response =
  backend :: string
  database :: string
  database_url :: "string option"
  database_name :: "string option"
  connection_status :: string
  collections :: "string list"

type_synonym environ = "string \<rightharpoonup> string"

text \<open>The three symbols of the status texts, in UTF-8.\<close>

definition check_mark :: string where
  "check_mark = [CHR 0xE2, CHR 0x9C, CHR 0x85]"

definition cross_mark :: string where
  "cross_mark = [CHR 0xE2, CHR 0x9D, CHR 0x8C]"

definition warning_sign :: string where
  "warning_sign = [CHR 0xE2, CHR 0x9A, CHR 0xA0, CHR 0xEF, CHR 0xB8, CHR 0x8F]"

text \<open>
  \<open>s[:n]\<close> counts code points: a byte \<open>10xxxxxx\<close> continues the code point before it.
\<close>

fun cp_take :: "nat \<Rightarrow> string \<Rightarrow> string" where
  "cp_take n [] = []"
| "cp_take n (c # cs) =
     (if 128 \<le> (of_char c :: nat) \<and> (of_char c :: nat) < 192 then c # cp_take n cs
      else (case n of 0 \<Rightarrow> [] | Suc m \<Rightarrow> c # cp_take m cs))"

text \<open>The truth value of \<open>os.getenv(k)\<close>: an unset variable and an empty one are false.\<close>

fun truthy :: "string option \<Rightarrow> bool" where
  "truthy None = False"
| "truthy (Some v) = (v \<noteq> [])"

definition initial_response :: response where
  "initial_response =
     \<lparr>backend = check_mark @ '' Running'',
      database = cross_mark @ '' Not Available'',
      database_url = None,
      database_name = None,
      connection_status = ''Not Connected'',
      collections = []\<rparr>"

text \<open>
  The \<open>try\<close> statement of \<open>test_database\<close>.  The only call in it that can raise is
  \<open>list_collection_names\<close>, inside the inner \<open>try\<close>, so the outer handler is never
  entered.
\<close>

definition probe_database :: "store option \<Rightarrow> response \<times> store option" where
  "probe_database db =
     (case db of
        Some s \<Rightarrow>
          (let r = initial_response
                 \<lparr>database := check_mark @ '' Available'',
                  database_url := Some (check_mark @ '' Configured''),
                  database_name := Some (name s),
                  connection_status := ''Connected''\<rparr>
           in case list_collection_names s of
                (Inr cs, s') \<Rightarrow>
                  (r\<lparr>collections := take 10 cs,
                     database := check_mark @ '' Connected & Working''\<rparr>, Some s')
              | (Inl msg, s') \<Rightarrow>
                  (r\<lparr>database := warning_sign @ ''  Connected but Error: '' @ cp_take 50 msg\<rparr>,
                   Some s'))
      | None \<Rightarrow>
          (initial_response\<lparr>database := warning_sign @ ''  Available but not initialized''\<rparr>,
           None))"

definition test_database :: "store option \<Rightarrow> environ \<Rightarrow> response \<times> store option" where
  "test_database db env =
     (case probe_database db of
        (r, db') \<Rightarrow>
          (r\<lparr>database_url :=
                Some (if truthy (env ''DATABASE_URL'') then check_mark @ '' Set''
                      else cross_mark @ '' Not Set''),
             database_name :=
                Some (if truthy (env ''DATABASE_NAME'') then check_mark @ '' Set''
                      else cross_mark @ '' Not Set'')\<rparr>,
           db'))"

section \<open>A reference runtime\<close>

text \<open>
  One instance of the library functions, used to run the handlers on concrete inputs.
  It covers a fragment of each function:
  \<^item> \<open>float\<close> of a string reads plain decimal numerals (an optional minus sign, digits,
    an optional fraction) and \<open>str\<close> of a float writes them; other strings are
    rejected;
  \<^item> the regular expressions are those built from literal characters and the dot,
    which stands for any character but the newline, with no option or with the option
    \<open>i\<close>; other patterns are rejected.  Under the option \<open>i\<close> the letters A to Z match
    in either case and every other byte matches itself only: that is the store's
    matching on ASCII text, and it leaves out the case pairs the store knows beyond
    ASCII.
\<close>

definition digits_val :: "string \<Rightarrow> nat option" where
  "digits_val ds =
     (if ds \<noteq> [] \<and> list_all is_digit ds
      then Some (foldl (\<lambda>a c. 10 * a + (of_char c - 48)) 0 ds)
      else None)"

definition decimal_of_str :: "string \<Rightarrow> rat option" where
  "decimal_of_str str =
     (let neg = (case str of [] \<Rightarrow> False | c # cs \<Rightarrow> c = CHR ''-'');
          body = (if neg then tl str else str);
          ip = takeWhile (\<lambda>c. c \<noteq> CHR ''.'') body;
          rest = dropWhile (\<lambda>c. c \<noteq> CHR ''.'') body
      in case digits_val ip of
           None \<Rightarrow> None
         | Some n \<Rightarrow>
             (case rest of
                [] \<Rightarrow> Some (if neg then - of_nat n else of_nat n)
              | dot # fr \<Rightarrow>
                  (case digits_val fr of
                     None \<Rightarrow> None
                   | Some m \<Rightarrow>
                       (let v = of_nat n + of_nat m / 10 ^ length fr
                        in Some (if neg then - v else v)))))"

fun frac_digits :: "nat \<Rightarrow> rat \<Rightarrow> string" where
  "frac_digits 0 x = []"
| "frac_digits (Suc k) x =
     (if x = 0 then []
      else char_of (48 + nat \<lfloor>10 * x\<rfloor>) # frac_digits k (10 * x - of_int \<lfloor>10 * x\<rfloor>))"

definition decimal_str :: "rat \<Rightarrow> string" where
  "decimal_str x =
     (let a = \<bar>x\<bar>; fr = frac_digits 17 (a - of_int \<lfloor>a\<rfloor>)
      in (if x < 0 then [CHR ''-''] else []) @ nat_digits (nat \<lfloor>a\<rfloor>) @ [CHR ''.''] @
         (if fr = [] then [CHR ''0''] else fr))"

text \<open>The characters with a meaning of their own in a pattern.\<close>

definition metachars :: "char list" where
  "metachars = CHR 0x5C # ''^$.|?*+()[]{}''"

definition plain_term :: "string \<Rightarrow> bool" where
  "plain_term t = (\<forall>c \<in> set t. c \<notin> set metachars)"

definition char_match :: "bool \<Rightarrow> char \<Rightarrow> char \<Rightarrow> bool" where
  "char_match ci p c =
     (if p = CHR ''.'' then c \<noteq> CHR 0x0A
      else if ci then ascii_lower p = ascii_lower c
      else p = c)"

fun match_here :: "bool \<Rightarrow> string \<Rightarrow> string \<Rightarrow> bool" where
  "match_here ci [] cs = True"
| "match_here ci (p # ps) [] = False"
| "match_here ci (p # ps) (c # cs) = (char_match ci p c \<and> match_here ci ps cs)"

fun search :: "bool \<Rightarrow> string \<Rightarrow> string \<Rightarrow> bool" where
  "search ci ps [] = match_here ci ps []"
| "search ci ps (c # cs) = (match_here ci ps (c # cs) \<or> search ci ps cs)"

definition basic_regex :: "string \<Rightarrow> string \<Rightarrow> (string \<Rightarrow> bool) option" where
  "basic_regex p opts =
     (if (opts = [] \<or> opts = ''i'') \<and> (\<forall>c \<in> set p. c = CHR ''.'' \<or> c \<notin> set metachars)
      then Some (search (opts = ''i'') p)
      else None)"

definition plain_runtime :: runtime where
  "plain_runtime =
     \<lparr>float_of_str = decimal_of_str,
      str_of_float = decimal_str,
      regex_compile = basic_regex\<rparr>"

section \<open>The search as the specification words it\<close>

text \<open>
  A record matches a term when its title, category or brand is a string that contains
  the term as a substring, letters compared without regard to case.  Which strings are
  the same up to the case of their letters is a parameter \<open>eq\<close>: the store has its own
  case folding, which extends beyond ASCII.  A string contains the term when one of its
  segments is the term up to case.
\<close>

definition ci_contains :: "(string \<Rightarrow> string \<Rightarrow> bool) \<Rightarrow> string \<Rightarrow> string \<Rightarrow> bool" where
  "ci_contains eq t str = (\<exists>u \<in> set (sublists str). eq t u)"

definition field_contains ::
  "(string \<Rightarrow> string \<Rightarrow> bool) \<Rightarrow> string \<Rightarrow> doc \<Rightarrow> string \<Rightarrow> bool" where
  "field_contains eq t d f =
     (case d f of Some (BStr str) \<Rightarrow> ci_contains eq t str | _ \<Rightarrow> False)"

definition substring_match :: "(string \<Rightarrow> string \<Rightarrow> bool) \<Rightarrow> string \<Rightarrow> doc \<Rightarrow> bool" where
  "substring_match eq t d =
     (field_contains eq t d ''title'' \<or> field_contains eq t d ''category'' \<or>
      field_contains eq t d ''brand'')"

text \<open>The case folding of ASCII: the letters A to Z are the same as a to z.\<close>

definition ascii_ci :: "string \<Rightarrow> string \<Rightarrow> bool" where
  "ascii_ci t u = (map ascii_lower t = map ascii_lower u)"

text \<open>
  What the store's pattern matcher does with a term free of metacharacters, as a
  property of a runtime and of a case folding: the term is compiled, and it matches the
  strings that contain it up to case.
\<close>

definition literal_regex :: "runtime \<Rightarrow> (string \<Rightarrow> string \<Rightarrow> bool) \<Rightarrow> bool" where
  "literal_regex R eq =
     (\<forall>t. plain_term t \<longrightarrow> regex_compile R t ''i'' = Some (ci_contains eq t))"

text \<open>The condition of a record's field under a compiled pattern.\<close>

definition regex_field :: "(string \<Rightarrow> bool) \<Rightarrow> doc \<Rightarrow> string \<Rightarrow> bool" where
  "regex_field m d f = (case d f of Some (BStr str) \<Rightarrow> m str | _ \<Rightarrow> False)"


text \<open>The next round trip of the store succeeds.\<close>

definition next_ok :: "store \<Rightarrow> bool" where
  "next_ok s = (case pending s of [] \<Rightarrow> True | r # rs \<Rightarrow> r = Success)"

section \<open>Example records and stores\<close>

definition backpack :: doc where
  "backpack =
     map_of
       [(''_id'', BOid (ObjectId ''650000000000000000000001'')),
        (''title'', BStr ''Backpack''),
        (''price'', BDouble 39.5),
        (''category'', BStr ''Accessories''),
        (''in_stock'', BBool True),
        (''brand'', BStr ''TrailPro''),
        (''rating'', BDouble 4.1)]"

definition backpack_out :: ProductOut where
  "backpack_out =
     \<lparr>product_id = ''650000000000000000000001'', title = ''Backpack'', description = None,
      price = 39.5, category = ''Accessories'', in_stock = True, image_url = None,
      brand = Some ''TrailPro'', rating = Some 4.1\<rparr>"

definition bare :: doc where
  "bare = map_of [(''_id'', BOid (ObjectId ''650000000000000000000002''))]"

definition bare_out :: ProductOut where
  "bare_out =
     \<lparr>product_id = ''650000000000000000000002'', title = '''', description = None,
      price = 0, category = ''General'', in_stock = True, image_url = None,
      brand = None, rating = None\<rparr>"

definition shop :: store where
  "shop =
     \<lparr>product = [backpack], name = ''shop'', collection_names = [''product''],
      next_oid = 0, pending = [], calls = []\<rparr>"

text \<open>
  The store at an address where no server answers: its round trip fails, and the
  driver's error message starts with the address.
\<close>

definition unreachable :: "string \<Rightarrow> store" where
  "unreachable addr =
     \<lparr>product = [], name = ''shop'', collection_names = [], next_oid = 0,
      pending = [Failure (addr @ '': [Errno 111] Connection refused'')], calls = []\<rparr>"

definition titled :: "string \<Rightarrow> string \<Rightarrow> doc" where
  "titled i t = map_of [(''_id'', BOid (ObjectId i)), (''title'', BStr t)]"

definition titled_out :: "string \<Rightarrow> string \<Rightarrow> ProductOut" where
  "titled_out i t =
     \<lparr>product_id = i, title = t, description = None, price = 0, category = ''General'',
      in_stock = True, image_url = None, brand = None, rating = None\<rparr>"

text \<open>The three titles of the specification's example, in the order they were stored.\<close>

definition three_shop :: store where
  "three_shop =
     shop\<lparr>product :=
            [titled ''65000000000000000000000a'' ''Water Bottle'',
             titled ''65000000000000000000000b'' ''Backpack'',
             titled ''65000000000000000000000c'' ''Desk Lamp'']\<rparr>"

text \<open>A record that stores no title, and what the Normalizer returns for it.\<close>

definition untitled :: "string \<Rightarrow> doc" where
  "untitled i = map_of [(''_id'', BOid (ObjectId i))]"

text \<open>
  Two records that are returned with the same title: the first stores the empty title,
  the second stores none.
\<close>

definition blank_shop :: store where
  "blank_shop =
     shop\<lparr>product :=
            [titled ''65000000000000000000000a'' '''',
             untitled ''65000000000000000000000b'']\<rparr>"

text \<open>Two records with the same stored title, and one between them.\<close>

definition mug_shop :: store where
  "mug_shop =
     shop\<lparr>product :=
            [titled ''65000000000000000000000a'' ''Mug'',
             titled ''65000000000000000000000b'' ''Cup'',
             titled ''65000000000000000000000c'' ''Mug'']\<rparr>"

text \<open>
  The sort key of a stored title, for the two kinds of title a record that normalizes
  can have: none, or a string.
\<close>

definition title_key :: "bson option \<Rightarrow> nat \<times> rat \<times> string" where
  "title_key k = bson_key (case k of None \<Rightarrow> BNull | Some v \<Rightarrow> v)"

definition plain_title :: "bson option \<Rightarrow> bool" where
  "plain_title k = (case k of None \<Rightarrow> True | Some (BStr t) \<Rightarrow> True | _ \<Rightarrow> False)"

section \<open>Properties of the Document Normalizer\<close>

lemma float_of_int_small:
  assumes "\<bar>n\<bar> < 2 ^ 53"
  shows "float_of_int n = Inr (of_int n)"
proof -
  have a: "nat \<bar>n\<bar> < 2 ^ 53" using assms by (simp add: nat_less_iff)
  have b: "(2::nat) ^ 53 \<le> 2 ^ 1024" by (rule power_increasing) simp_all
  from a b have c: "\<not> (2::nat) ^ 1024 \<le> nat \<bar>n\<bar>" by linarith
  have d: "nearest_double (nat \<bar>n\<bar>) = nat \<bar>n\<bar>"
    using a by (simp add: nearest_double_def)
  show ?thesis
    unfolding float_of_int_def Let_def d using c by auto
qed

lemma float_of_int_0 [simp]: "float_of_int 0 = Inr 0"
  using float_of_int_small[of 0] by simp

text \<open>Above 2 to the power 53 the conversion rounds, a tie going to the even mantissa.\<close>

lemma float_of_int_rounding_example:
  "float_of_int 9007199254740993 = Inr 9007199254740992 \<and>
   float_of_int 9007199254740995 = Inr 9007199254740996"
  by (simp add: float_of_int_def nearest_double_def Let_def)

lemma ProductOut_new_Inr:
  assumes "ProductOut_new i t ds p c s img b r = Inr out"
  shows "valid_str t = Some (title out)" and "valid_str c = Some (category out)"
    and "price out = p" and "in_stock out = s" and "rating out = r" and "product_id out = i"
    and "valid_opt_str ds = Some (description out)"
    and "valid_opt_str img = Some (image_url out)"
    and "valid_opt_str b = Some (brand out)"
  using assms by (auto simp: ProductOut_new_def split: option.splits)

lemma serialize_product_price:
  assumes "serialize_product R d = Inr out"
  shows "py_float R (dict_get d ''price'' (BInt 0)) = Inr (price out)"
  using assms
  by (auto simp: serialize_product_def dest: ProductOut_new_Inr(3) split: sum.splits if_splits)


lemma serialize_product_fields:
  assumes "serialize_product R d = Inr out"
  shows "valid_str (dict_get d ''title'' (BStr [])) = Some (title out)"
    and "valid_str (dict_get d ''category'' (BStr ''General'')) = Some (category out)"
    and "in_stock out = py_bool (dict_get d ''in_stock'' (BBool True))"
  using assms
  by (auto simp: serialize_product_def dest: ProductOut_new_Inr split: sum.splits if_splits)

lemma serialize_product_price_error:
  assumes "py_float R (dict_get d ''price'' (BInt 0)) = Inl e"
  shows "serialize_product R d = Inl e"
  using assms by (simp add: serialize_product_def)

lemma serialize_backpack: "serialize_product R backpack = Inr backpack_out"
  by (simp add: serialize_product_def backpack_def backpack_out_def dict_get_def
      ProductOut_new_def)

lemma serialize_bare: "serialize_product R bare = Inr bare_out"
  by (simp add: serialize_product_def bare_def bare_out_def dict_get_def ProductOut_new_def)

text \<open>
  Claim C10.  A record whose \<open>in_stock\<close> is stored as null is normalized to
  \<open>in_stock = False\<close>, because \<open>bool(None)\<close> is false; the default \<open>True\<close> is what a
  record without the field gets.
\<close>

theorem null_in_stock_is_false:
  assumes "serialize_product R d = Inr out"
  shows "(d ''in_stock'' = Some BNull \<longrightarrow> \<not> in_stock out) \<and>
         (d ''in_stock'' = None \<longrightarrow> in_stock out)"
  using serialize_product_fields(3)[OF assms] by (simp add: dict_get_def)

theorem null_in_stock_is_false_witness:
  "serialize_product plain_runtime (backpack(''in_stock'' \<mapsto> BNull))
     = Inr (backpack_out\<lparr>in_stock := False\<rparr>) \<and>
   (backpack(''in_stock'' \<mapsto> BNull)) ''in_stock'' = Some BNull \<and>
   \<not> in_stock (backpack_out\<lparr>in_stock := False\<rparr>) \<and>
   serialize_product plain_runtime bare = Inr bare_out \<and>
   bare ''in_stock'' = None \<and> in_stock bare_out"
proof -
  have a: "serialize_product plain_runtime (backpack(''in_stock'' \<mapsto> BNull))
             = Inr (backpack_out\<lparr>in_stock := False\<rparr>)"
    by (simp add: serialize_product_def backpack_def backpack_out_def dict_get_def
        ProductOut_new_def)
  have b: "serialize_product plain_runtime bare = Inr bare_out"
    by (rule serialize_bare)
  have c: "bare ''in_stock'' = None" by (simp add: bare_def)
  show ?thesis
    using a b c null_in_stock_is_false[OF a] null_in_stock_is_false[OF b] by simp
qed



text \<open>
  Claim C2 as stated fails: a record whose price is stored as null, or as a string that
  is not a number, makes the Normalizer raise the error of \<open>float\<close>; no product with
  price 0 is produced.
\<close>

theorem invalid_price_fails_counterexample:
  "py_float plain_runtime BNull = Inl TypeError \<and>
   serialize_product plain_runtime (backpack(''price'' \<mapsto> BNull)) = Inl TypeError \<and>
   py_float plain_runtime (BStr ''abc'') = Inl ValueError \<and>
   serialize_product plain_runtime (backpack(''price'' \<mapsto> BStr ''abc'')) = Inl ValueError"
  by (simp add: serialize_product_def backpack_def dict_get_def plain_runtime_def
      decimal_of_str_def digits_val_def is_digit_def)

text \<open>
  Claim C2 as amended.  A record without a price is normalized as if it stored the
  price 0: every product it yields has price 0.  A record whose stored price \<open>float\<close>
  cannot convert makes the Normalizer fail with that error.
\<close>

theorem price_default_or_failure:
  "(d ''price'' = None \<longrightarrow> (\<forall>out. serialize_product R d = Inr out \<longrightarrow> price out = 0)) \<and>
   (d ''price'' = None \<longrightarrow>
      serialize_product R d = serialize_product R (d(''price'' \<mapsto> BInt 0))) \<and>
   (\<forall>v e. d ''price'' = Some v \<longrightarrow> py_float R v = Inl e \<longrightarrow> serialize_product R d = Inl e)"
proof (intro conjI impI allI)
  fix out assume "d ''price'' = None" "serialize_product R d = Inr out"
  then show "price out = 0"
    using serialize_product_price[of R d out] by (simp add: dict_get_def)
next
  assume "d ''price'' = None"
  then show "serialize_product R d = serialize_product R (d(''price'' \<mapsto> BInt 0))"
    by (simp add: serialize_product_def dict_get_def cong: sum.case_cong)
next
  fix v e assume "d ''price'' = Some v" "py_float R v = Inl e"
  then show "serialize_product R d = Inl e"
    by (intro serialize_product_price_error) (simp add: dict_get_def)
qed

theorem price_default_or_failure_witness:
  "bare ''price'' = None \<and> serialize_product plain_runtime bare = Inr bare_out \<and>
   price bare_out = 0 \<and>
   (backpack(''price'' \<mapsto> BNull)) ''price'' = Some BNull \<and>
   py_float plain_runtime BNull = Inl TypeError \<and>
   serialize_product plain_runtime (backpack(''price'' \<mapsto> BNull)) = Inl TypeError"
proof -
  have a: "bare ''price'' = None" by (simp add: bare_def)
  have b: "serialize_product plain_runtime bare = Inr bare_out" by (rule serialize_bare)
  have c: "(backpack(''price'' \<mapsto> BNull)) ''price'' = Some BNull" by simp
  have d: "py_float plain_runtime BNull = Inl TypeError" by simp
  show ?thesis
    using a b c d price_default_or_failure[of bare plain_runtime]
      price_default_or_failure[of "backpack(''price'' \<mapsto> BNull)" plain_runtime]
    by simp
qed

section \<open>Properties of the Seed Initializer\<close>

lemma round_trip_idle:
  assumes "pending s = []"
  shows "round_trip c s = (Success, s\<lparr>calls := calls s @ [c]\<rparr>)"
  using assms by (simp add: round_trip_def)

lemma count_documents_idle:
  assumes "pending s = []"
  shows "count_documents s = (Inr (length (product s)), s\<lparr>calls := calls s @ [CountDocuments]\<rparr>)"
  using assms by (simp add: count_documents_def round_trip_idle)

lemma count_documents_effect:
  "\<exists>r s'. count_documents s = (r, s') \<and> product s' = product s \<and>
          calls s' = calls s @ [CountDocuments] \<and> (\<forall>n. r = Inr n \<longrightarrow> n = length (product s))"
  by (auto simp: count_documents_def round_trip_def split: list.splits outcome.splits)

lemma sample_products_length: "length sample_products = 8"
  by (simp add: sample_products_def)

lemma sample_products_nonempty: "sample_products \<noteq> []"
  using sample_products_length by auto

lemma sample_products_no_id: "\<forall>d \<in> set sample_products. d ''_id'' = None"
  by (simp add: sample_products_def)

lemma length_assign_ids: "length (assign_ids n ds) = length ds"
  by (induction ds arbitrary: n) (auto split: option.splits)

lemma assign_ids_Nil: "assign_ids n ds = [] \<longleftrightarrow> ds = []"
  by (cases ds) (auto split: option.splits)

lemma assign_ids_strip:
  assumes "\<forall>d \<in> set ds. d ''_id'' = None"
  shows "map (\<lambda>d. d(''_id'' := None)) (assign_ids n ds) = ds"
  using assms by (induction ds arbitrary: n) auto

lemma insert_many_idle:
  assumes "pending s = []" and "ds \<noteq> []"
  shows "insert_many ds s =
           (Inr (),
            write_docs (assign_ids (next_oid s) ds)
              (s\<lparr>next_oid := next_oid s + length ds,
                 calls := calls s @ [InsertMany (assign_ids (next_oid s) ds)]\<rparr>))"
  using assms by (simp add: insert_many_def round_trip_idle Let_def)

lemma seed_body_nonempty:
  assumes "product s \<noteq> []"
  shows "\<exists>r s'. seed_body s = (r, s') \<and> product s' = product s \<and>
                calls s' = calls s @ [CountDocuments]"
proof -
  obtain r s' where c: "count_documents s = (r, s')" "product s' = product s"
    "calls s' = calls s @ [CountDocuments]" "\<forall>n. r = Inr n \<longrightarrow> n = length (product s)"
    using count_documents_effect by blast
  show ?thesis
  proof (cases r)
    case (Inl e)
    with c show ?thesis by (simp add: seed_body_def)
  next
    case (Inr n)
    with c assms have "n \<noteq> 0" by simp
    with c Inr show ?thesis by (simp add: seed_body_def)
  qed
qed

lemma seed_body_empty_idle:
  assumes "pending s = []" and "product s = []"
  shows "seed_body s =
           (Inr (),
            write_docs (assign_ids (next_oid s) sample_products)
              (s\<lparr>next_oid := next_oid s + length sample_products,
                 calls := calls s @ [CountDocuments,
                                     InsertMany (assign_ids (next_oid s) sample_products)]\<rparr>))"
proof -
  let ?s1 = "s\<lparr>calls := calls s @ [CountDocuments]\<rparr>"
  have "pending ?s1 = []" using assms by simp
  from insert_many_idle[OF this sample_products_nonempty] assms show ?thesis
    by (simp add: seed_body_def count_documents_idle sample_products_nonempty)
qed

lemma seed_result:
  "seed_products_if_needed (Some s) = (Inr (), Some (snd (seed_body s)))"
  by (cases "seed_body s") (auto simp: seed_products_if_needed_def split: sum.splits)

text \<open>
  Claim C7.  Startup never fails because of the seed step.  Without a configured store
  the step does nothing.  With one, it returns normally with the store as the body of
  the \<open>try\<close> statement left it: whatever the count or the insertion raised has been
  caught.  (The exceptions of the model are all subclasses of \<open>Exception\<close>, which is
  what the handler catches.)
\<close>

theorem seed_never_fails:
  "seed_products_if_needed None = (Inr (), None) \<and>
   seed_products_if_needed (Some s) = (Inr (), Some (snd (seed_body s))) \<and>
   (\<forall>e. fst (seed_body s) = Inl e \<longrightarrow> fst (seed_products_if_needed (Some s)) = Inr ())"
  by (simp add: seed_result) (simp add: seed_products_if_needed_def)

text \<open>A failing count leaves the catalog empty; a failing insertion may leave a part of it.\<close>

lemma seed_count_failure_example:
  "seed_body (shop\<lparr>product := [], pending := [Failure ''no server'']\<rparr>)
     = (Inl (PyMongoError ''no server''),
        shop\<lparr>product := [], pending := [], calls := [CountDocuments]\<rparr>)"
  by (simp add: seed_body_def count_documents_def round_trip_def shop_def)

lemma seed_insert_failure_example:
  "fst (seed_body (shop\<lparr>product := [], pending := [Success, Partial 3 ''write failed'']\<rparr>))
     = Inl (PyMongoError ''write failed'') \<and>
   length (product (snd (seed_body
     (shop\<lparr>product := [], pending := [Success, Partial 3 ''write failed'']\<rparr>)))) = 3"
  by (simp add: seed_body_def count_documents_def round_trip_def shop_def insert_many_def
      sample_products_nonempty Let_def write_docs_def length_assign_ids sample_products_length
      assign_ids_Nil)

theorem seed_never_fails_witness:
  "fst (seed_body (shop\<lparr>product := [], pending := [Failure ''no server'']\<rparr>))
     = Inl (PyMongoError ''no server'') \<and>
   seed_products_if_needed (Some (shop\<lparr>product := [], pending := [Failure ''no server'']\<rparr>))
     = (Inr (), Some (shop\<lparr>product := [], pending := [], calls := [CountDocuments]\<rparr>)) \<and>
   fst (seed_body (shop\<lparr>product := [], pending := [Success, Partial 3 ''write failed'']\<rparr>))
     = Inl (PyMongoError ''write failed'') \<and>
   fst (seed_products_if_needed
         (Some (shop\<lparr>product := [], pending := [Success, Partial 3 ''write failed'']\<rparr>)))
     = Inr ()"
proof -
  let ?a = "shop\<lparr>product := [], pending := [Failure ''no server'']\<rparr>"
  let ?b = "shop\<lparr>product := [], pending := [Success, Partial 3 ''write failed'']\<rparr>"
  have a: "fst (seed_body ?a) = Inl (PyMongoError ''no server'')"
    by (simp add: seed_count_failure_example)
  have b: "fst (seed_body ?b) = Inl (PyMongoError ''write failed'')"
    using seed_insert_failure_example by simp
  from seed_never_fails[of ?a] have 1: "seed_products_if_needed (Some ?a)
      = (Inr (), Some (shop\<lparr>product := [], pending := [], calls := [CountDocuments]\<rparr>))"
    by (simp add: seed_count_failure_example)
  from seed_never_fails[of ?b] b have 2: "fst (seed_products_if_needed (Some ?b)) = Inr ()"
    by blast
  from a b 1 2 show ?thesis by blast
qed

text \<open>
  Claim C4.  A store that holds a record is left as it is: the step counts and writes
  nothing.  On an empty store whose round trips succeed the step inserts the eight
  fixture records, each with a fresh identifier and otherwise as written in the source.
  Run twice in sequence, the second run finds the records of the first and writes
  nothing.
\<close>

theorem seed_only_when_empty:
  "(product s \<noteq> [] \<longrightarrow>
      (\<exists>s1. seed_products_if_needed (Some s) = (Inr (), Some s1) \<and>
            product s1 = product s \<and> calls s1 = calls s @ [CountDocuments])) \<and>
   (pending s = [] \<longrightarrow> product s = [] \<longrightarrow>
      (\<exists>s1. seed_products_if_needed (Some s) = (Inr (), Some s1) \<and>
            product s1 = assign_ids (next_oid s) sample_products \<and>
            map (\<lambda>d. d(''_id'' := None)) (product s1) = sample_products \<and>
            length (product s1) = 8 \<and>
            calls s1 = calls s @ [CountDocuments, InsertMany (product s1)])) \<and>
   (pending s = [] \<longrightarrow>
      (\<exists>s1 s2. seed_products_if_needed (Some s) = (Inr (), Some s1) \<and>
               seed_products_if_needed (Some s1) = (Inr (), Some s2) \<and>
               product s2 = product s1 \<and> calls s2 = calls s1 @ [CountDocuments]))"
proof (intro conjI impI)
  assume "product s \<noteq> []"
  then show "\<exists>s1. seed_products_if_needed (Some s) = (Inr (), Some s1) \<and>
            product s1 = product s \<and> calls s1 = calls s @ [CountDocuments]"
    using seed_body_nonempty[of s] by (auto simp: seed_result)
next
  assume idle: "pending s = []" and empty: "product s = []"
  let ?s1 = "snd (seed_body s)"
  have p: "product ?s1 = assign_ids (next_oid s) sample_products"
    using seed_body_empty_idle[OF idle empty] empty
    by (simp add: write_docs_def)
  have c: "calls ?s1 = calls s @ [CountDocuments, InsertMany (product ?s1)]"
    using seed_body_empty_idle[OF idle empty] p by (simp add: write_docs_def)
  show "\<exists>s1. seed_products_if_needed (Some s) = (Inr (), Some s1) \<and>
            product s1 = assign_ids (next_oid s) sample_products \<and>
            map (\<lambda>d. d(''_id'' := None)) (product s1) = sample_products \<and>
            length (product s1) = 8 \<and>
            calls s1 = calls s @ [CountDocuments, InsertMany (product s1)]"
    using p c
    by (simp add: seed_result assign_ids_strip[OF sample_products_no_id]
        length_assign_ids sample_products_length)
next
  assume idle: "pending s = []"
  let ?s1 = "snd (seed_body s)"
  have ne: "product ?s1 \<noteq> []"
  proof (cases "product s = []")
    case True
    have "product ?s1 = assign_ids (next_oid s) sample_products"
      using seed_body_empty_idle[OF idle True] True by (simp add: write_docs_def)
    then have "length (product ?s1) = 8"
      by (simp add: length_assign_ids sample_products_length)
    then show ?thesis by auto
  next
    case False
    then show ?thesis using seed_body_nonempty[of s] by auto
  qed
  from seed_body_nonempty[OF ne]
  show "\<exists>s1 s2. seed_products_if_needed (Some s) = (Inr (), Some s1) \<and>
               seed_products_if_needed (Some s1) = (Inr (), Some s2) \<and>
               product s2 = product s1 \<and> calls s2 = calls s1 @ [CountDocuments]"
    by (auto simp: seed_result)
qed

theorem seed_only_when_empty_witness:
  "product shop \<noteq> [] \<and>
   (\<exists>s1. seed_products_if_needed (Some shop) = (Inr (), Some s1) \<and>
         product s1 = product shop \<and> calls s1 = calls shop @ [CountDocuments]) \<and>
   pending (shop\<lparr>product := []\<rparr>) = [] \<and> product (shop\<lparr>product := []\<rparr>) = [] \<and>
   (\<exists>s1 s2. seed_products_if_needed (Some (shop\<lparr>product := []\<rparr>)) = (Inr (), Some s1) \<and>
            length (product s1) = 8 \<and>
            map (\<lambda>d. d(''_id'' := None)) (product s1) = sample_products \<and>
            seed_products_if_needed (Some s1) = (Inr (), Some s2) \<and>
            product s2 = product s1)"
proof -
  have a: "product shop \<noteq> []" by (simp add: shop_def)
  have b: "pending (shop\<lparr>product := []\<rparr>) = []" by (simp add: shop_def)
  have c: "product (shop\<lparr>product := []\<rparr>) = []" by simp
  note t1 = seed_only_when_empty[of shop]
  note t2 = seed_only_when_empty[of "shop\<lparr>product := []\<rparr>"]
  from t1 a have 1: "\<exists>s1. seed_products_if_needed (Some shop) = (Inr (), Some s1) \<and>
         product s1 = product shop \<and> calls s1 = calls shop @ [CountDocuments]"
    by blast
  from t2 b c obtain s1 where s1:
    "seed_products_if_needed (Some (shop\<lparr>product := []\<rparr>)) = (Inr (), Some s1)"
    "length (product s1) = 8"
    "map (\<lambda>d. d(''_id'' := None)) (product s1) = sample_products"
    by blast
  from t2 b obtain s1' s2 where s2:
    "seed_products_if_needed (Some (shop\<lparr>product := []\<rparr>)) = (Inr (), Some s1')"
    "seed_products_if_needed (Some s1') = (Inr (), Some s2)" "product s2 = product s1'"
    by blast
  from s1(1) s2(1) have "s1' = s1" by simp
  with s1 s2 have 2: "\<exists>s1 s2.
      seed_products_if_needed (Some (shop\<lparr>product := []\<rparr>)) = (Inr (), Some s1) \<and>
      length (product s1) = 8 \<and>
      map (\<lambda>d. d(''_id'' := None)) (product s1) = sample_products \<and>
      seed_products_if_needed (Some s1) = (Inr (), Some s2) \<and>
      product s2 = product s1"
    by blast
  from a b c 1 2 show ?thesis by blast
qed

section \<open>Properties of GetById\<close>












lemma get_product_missing_example:
  "fst (get_product plain_runtime (Some shop) ''650000000000000000000009'')
     = Inl (HTTPException 404 ''Product not found'')"
proof -
  have p: "parse_objectid ''650000000000000000000009''
             = Some (ObjectId ''650000000000000000000009'')"
    by (simp add: parse_objectid_def is_hex_def is_digit_def is_space_def ascii_lower_def)
  have f: "backpack ''_id'' = Some (BOid (ObjectId ''650000000000000000000001''))"
    by (simp add: backpack_def)
  show ?thesis
    by (simp add: get_product_def p find_one_def round_trip_def shop_def f)
qed


section \<open>Properties of the diagnostics endpoint\<close>

lemma marks_differ: "check_mark @ '' Set'' \<noteq> cross_mark @ '' Not Set''"
  by (simp add: check_mark_def cross_mark_def)

lemma probe_unreachable:
  "fst (probe_database (Some (unreachable addr)))
     = initial_response
         \<lparr>database := warning_sign @ ''  Connected but Error: '' @
                        cp_take 50 (addr @ '': [Errno 111] Connection refused''),
          database_url := Some (check_mark @ '' Configured''),
          database_name := Some ''shop'',
          connection_status := ''Connected''\<rparr>"
  by (simp add: probe_database_def list_collection_names_def round_trip_def unreachable_def
      initial_response_def)

text \<open>
  Claim C8 as stated fails in two ways.  A variable that is set to the empty string is
  reported as not set: the first two environments below set the same variable, one to
  the empty string and one to a connection string, and get different responses.  And
  the response is not free of the values: when no server answers at the address the
  connection string gives, the driver's error names that address, and the response
  quotes the error; so two environments that set both variables get different responses
  when their connection strings differ, and each response contains the connection
  string.
\<close>

theorem diagnostics_values_counterexample:
  "dom [''DATABASE_URL'' \<mapsto> ''''] = dom [''DATABASE_URL'' \<mapsto> ''mongodb://localhost:27017''] \<and>
   test_database None [''DATABASE_URL'' \<mapsto> '''']
     \<noteq> test_database None [''DATABASE_URL'' \<mapsto> ''mongodb://localhost:27017''] \<and>
   dom [''DATABASE_URL'' \<mapsto> ''localhost:27017'', ''DATABASE_NAME'' \<mapsto> ''shop'']
     = dom [''DATABASE_URL'' \<mapsto> ''10.0.0.5:27017'', ''DATABASE_NAME'' \<mapsto> ''shop''] \<and>
   test_database (Some (unreachable ''localhost:27017''))
       [''DATABASE_URL'' \<mapsto> ''localhost:27017'', ''DATABASE_NAME'' \<mapsto> ''shop'']
     \<noteq> test_database (Some (unreachable ''10.0.0.5:27017''))
         [''DATABASE_URL'' \<mapsto> ''10.0.0.5:27017'', ''DATABASE_NAME'' \<mapsto> ''shop''] \<and>
   database (fst (test_database (Some (unreachable ''localhost:27017''))
       [''DATABASE_URL'' \<mapsto> ''localhost:27017'', ''DATABASE_NAME'' \<mapsto> ''shop'']))
     = warning_sign @ ''  Connected but Error: localhost:27017: [Errno 111] Connection refused'' \<and>
   sublist ''localhost:27017''
     (database (fst (test_database (Some (unreachable ''localhost:27017''))
       [''DATABASE_URL'' \<mapsto> ''localhost:27017'', ''DATABASE_NAME'' \<mapsto> ''shop''])))"
proof -
  let ?e1 = "[''DATABASE_URL'' \<mapsto> ''localhost:27017'', ''DATABASE_NAME'' \<mapsto> ''shop'']"
  let ?e2 = "[''DATABASE_URL'' \<mapsto> ''10.0.0.5:27017'', ''DATABASE_NAME'' \<mapsto> ''shop'']"
  have "database_url (fst (test_database None [''DATABASE_URL'' \<mapsto> '''']))
          = Some (cross_mark @ '' Not Set'')"
    by (simp add: test_database_def probe_database_def)
  moreover have "database_url
      (fst (test_database None [''DATABASE_URL'' \<mapsto> ''mongodb://localhost:27017'']))
          = Some (check_mark @ '' Set'')"
    by (simp add: test_database_def probe_database_def)
  ultimately have a: "test_database None [''DATABASE_URL'' \<mapsto> '''']
     \<noteq> test_database None [''DATABASE_URL'' \<mapsto> ''mongodb://localhost:27017'']"
    using marks_differ by (metis option.inject)
  have b: "dom ?e1 = dom ?e2" by simp
  have d1: "database (fst (test_database (Some (unreachable ''localhost:27017'')) ?e1))
     = warning_sign @ ''  Connected but Error: localhost:27017: [Errno 111] Connection refused''"
    by (simp add: test_database_def split_beta probe_unreachable)
  have d2: "database (fst (test_database (Some (unreachable ''10.0.0.5:27017'')) ?e2))
     = warning_sign @ ''  Connected but Error: 10.0.0.5:27017: [Errno 111] Connection refused''"
    by (simp add: test_database_def split_beta probe_unreachable)
  have c: "test_database (Some (unreachable ''localhost:27017'')) ?e1
     \<noteq> test_database (Some (unreachable ''10.0.0.5:27017'')) ?e2"
  proof
    assume "test_database (Some (unreachable ''localhost:27017'')) ?e1
      = test_database (Some (unreachable ''10.0.0.5:27017'')) ?e2"
    then have "database (fst (test_database (Some (unreachable ''localhost:27017'')) ?e1))
      = database (fst (test_database (Some (unreachable ''10.0.0.5:27017'')) ?e2))"
      by simp
    then show False unfolding d1 d2 by simp
  qed
  have "sublist ''localhost:27017''
     (warning_sign @ ''  Connected but Error: localhost:27017: [Errno 111] Connection refused'')"
    by code_simp
  with d1 have e: "sublist ''localhost:27017''
     (database (fst (test_database (Some (unreachable ''localhost:27017'')) ?e1)))"
    by simp
  from a b c d1 e show ?thesis by simp
qed

text \<open>
  Claim C8 as amended.  The fields \<open>database_url\<close> and \<open>database_name\<close> of the response
  are one of two fixed texts each, chosen by whether the variable has a non-empty
  value.  The handler reads the environment for nothing else: the other fields, and the
  store the handler leaves, are the same for any two environments.  So for the same
  store handle, two environments that agree on which of the two variables have a
  non-empty value get the same response.  What the response says about the store comes
  from the store: when listing the collections fails, the field \<open>database\<close> quotes the
  first 50 characters of the driver's error message, whatever it says.
\<close>

theorem diagnostics_presence_only:
  "database_url (fst (test_database db env)) =
     Some (if truthy (env ''DATABASE_URL'') then check_mark @ '' Set''
           else cross_mark @ '' Not Set'') \<and>
   database_name (fst (test_database db env)) =
     Some (if truthy (env ''DATABASE_NAME'') then check_mark @ '' Set''
           else cross_mark @ '' Not Set'') \<and>
   backend (fst (test_database db env)) = backend (fst (test_database db env')) \<and>
   database (fst (test_database db env)) = database (fst (test_database db env')) \<and>
   connection_status (fst (test_database db env))
     = connection_status (fst (test_database db env')) \<and>
   collections (fst (test_database db env)) = collections (fst (test_database db env')) \<and>
   snd (test_database db env) = snd (test_database db env') \<and>
   (truthy (env ''DATABASE_URL'') = truthy (env' ''DATABASE_URL'') \<longrightarrow>
    truthy (env ''DATABASE_NAME'') = truthy (env' ''DATABASE_NAME'') \<longrightarrow>
    test_database db env = test_database db env') \<and>
   (\<forall>s msg s'. db = Some s \<longrightarrow> list_collection_names s = (Inl msg, s') \<longrightarrow>
      database (fst (test_database db env))
        = warning_sign @ ''  Connected but Error: '' @ cp_take 50 msg)"
proof -
  have "database (fst (test_database db env))
          = warning_sign @ ''  Connected but Error: '' @ cp_take 50 msg"
    if "db = Some s" and "list_collection_names s = (Inl msg, s')" for s msg s'
    using that by (simp add: test_database_def probe_database_def)
  then show ?thesis
    by (cases "probe_database db") (simp add: test_database_def)
qed

theorem diagnostics_presence_only_witness:
  "truthy ([''DATABASE_URL'' \<mapsto> ''mongodb://alpha:27017'', ''DATABASE_NAME'' \<mapsto> ''shop''] ''DATABASE_URL'')
     = truthy ([''DATABASE_URL'' \<mapsto> ''mongodb://beta:27017'', ''DATABASE_NAME'' \<mapsto> ''store''] ''DATABASE_URL'') \<and>
   truthy ([''DATABASE_URL'' \<mapsto> ''mongodb://alpha:27017'', ''DATABASE_NAME'' \<mapsto> ''shop''] ''DATABASE_NAME'')
     = truthy ([''DATABASE_URL'' \<mapsto> ''mongodb://beta:27017'', ''DATABASE_NAME'' \<mapsto> ''store''] ''DATABASE_NAME'') \<and>
   test_database (Some shop) [''DATABASE_URL'' \<mapsto> ''mongodb://alpha:27017'', ''DATABASE_NAME'' \<mapsto> ''shop'']
     = test_database (Some shop) [''DATABASE_URL'' \<mapsto> ''mongodb://beta:27017'', ''DATABASE_NAME'' \<mapsto> ''store''] \<and>
   list_collection_names (shop\<lparr>pending := [Failure ''timed out'']\<rparr>)
     = (Inl ''timed out'', shop\<lparr>pending := [], calls := [ListCollectionNames]\<rparr>) \<and>
   database (fst (test_database (Some (shop\<lparr>pending := [Failure ''timed out'']\<rparr>)) Map.empty))
     = warning_sign @ ''  Connected but Error: timed out''"
proof -
  let ?e1 = "[''DATABASE_URL'' \<mapsto> ''mongodb://alpha:27017'', ''DATABASE_NAME'' \<mapsto> ''shop'']"
  let ?e2 = "[''DATABASE_URL'' \<mapsto> ''mongodb://beta:27017'', ''DATABASE_NAME'' \<mapsto> ''store'']"
  let ?down = "shop\<lparr>pending := [Failure ''timed out'']\<rparr>"
  have a: "truthy (?e1 ''DATABASE_URL'') = truthy (?e2 ''DATABASE_URL'')" by simp
  have b: "truthy (?e1 ''DATABASE_NAME'') = truthy (?e2 ''DATABASE_NAME'')" by simp
  from diagnostics_presence_only[of "Some shop" ?e1 ?e2] a b
  have c: "test_database (Some shop) ?e1 = test_database (Some shop) ?e2" by blast
  have d: "list_collection_names ?down
     = (Inl ''timed out'', shop\<lparr>pending := [], calls := [ListCollectionNames]\<rparr>)"
    by (simp add: list_collection_names_def round_trip_def shop_def)
  from diagnostics_presence_only[of "Some ?down" Map.empty Map.empty] d
  have "database (fst (test_database (Some ?down) Map.empty))
     = warning_sign @ ''  Connected but Error: '' @ cp_take 50 ''timed out''"
    by blast
  then have e: "database (fst (test_database (Some ?down) Map.empty))
     = warning_sign @ ''  Connected but Error: timed out''"
    by simp
  from a b c d e show ?thesis by blast
qed

text \<open>The response for a store that answers, and for one whose listing fails.\<close>

lemma diagnostics_example:
  "fst (test_database (Some shop) [''DATABASE_URL'' \<mapsto> ''mongodb://alpha:27017''])
     = \<lparr>backend = check_mark @ '' Running'',
        database = check_mark @ '' Connected & Working'',
        database_url = Some (check_mark @ '' Set''),
        database_name = Some (cross_mark @ '' Not Set''),
        connection_status = ''Connected'',
        collections = [''product'']\<rparr>"
  by (simp add: test_database_def probe_database_def list_collection_names_def round_trip_def
      shop_def initial_response_def)

lemma diagnostics_failure_example:
  "database (fst (test_database (Some (shop\<lparr>pending := [Failure ''timed out'']\<rparr>)) Map.empty))
     = warning_sign @ ''  Connected but Error: timed out''"
  by (simp add: test_database_def probe_database_def list_collection_names_def round_trip_def
      shop_def initial_response_def)

section \<open>Properties of List/Search\<close>

lemma round_trip_next_ok:
  assumes "next_ok s"
  shows "\<exists>s'. round_trip c s = (Success, s') \<and> product s' = product s \<and>
              calls s' = calls s @ [c]"
  using assms by (auto simp: next_ok_def round_trip_def split: list.splits)

lemma find_sorted_next_ok:
  assumes "next_ok s"
  shows "\<exists>s'. find_sorted R q f s =
           (if query_ok R q
            then Inr (sort_key (sort_value f) (filter (matches R q) (product s)))
            else Inl (PyMongoError ''Regular expression is invalid''), s') \<and>
           calls s' = calls s @ [Find q]"
proof -
  obtain s' where "round_trip (Find q) s = (Success, s')" "product s' = product s"
    "calls s' = calls s @ [Find q]"
    using round_trip_next_ok[OF assms] by blast
  then show ?thesis by (simp add: find_sorted_def)
qed

lemma find_sorted_Inr:
  assumes "find_sorted R q f s = (Inr docs, s')"
  shows "docs = sort_key (sort_value f) (filter (matches R q) (product s))"
  using assms
  by (auto simp: find_sorted_def round_trip_def split: list.splits outcome.splits if_splits)

lemma list_products_next_ok:
  assumes "next_ok s"
  shows "\<exists>s'. list_products R (Some s) q =
           (if query_ok R (build_filter q)
            then collect (serialize_product R)
                   (sort_key (sort_value ''title'') (filter (matches R (build_filter q)) (product s)))
            else Inl (PyMongoError ''Regular expression is invalid''), Some s') \<and>
           calls s' = calls s @ [Find (build_filter q)]"
proof -
  obtain s' where f: "find_sorted R (build_filter q) ''title'' s =
           (if query_ok R (build_filter q)
            then Inr (sort_key (sort_value ''title'')
                   (filter (matches R (build_filter q)) (product s)))
            else Inl (PyMongoError ''Regular expression is invalid''), s')"
    and c: "calls s' = calls s @ [Find (build_filter q)]"
    using find_sorted_next_ok[OF assms] by blast
  show ?thesis
    using c by (intro exI[of _ s']) (simp add: list_products_def f)
qed

lemma list_products_Inr:
  assumes "list_products R (Some s) q = (Inr ps, db')"
  shows "collect (serialize_product R)
           (sort_key (sort_value ''title'') (filter (matches R (build_filter q)) (product s)))
         = Inr ps"
proof (cases "find_sorted R (build_filter q) ''title'' s")
  case (Pair r s')
  show ?thesis
  proof (cases r)
    case (Inl e)
    with Pair assms show ?thesis by (simp add: list_products_def)
  next
    case (Inr docs)
    with Pair assms have "collect (serialize_product R) docs = Inr ps"
      by (simp add: list_products_def)
    with find_sorted_Inr[of R "build_filter q" "''title''" s docs s'] Pair Inr
    show ?thesis by simp
  qed
qed

lemma collect_Inr:
  assumes "collect f xs = Inr ys"
  shows "list_all2 (\<lambda>x y. f x = Inr y) xs ys"
  using assms
  by (induction xs arbitrary: ys) (auto split: sum.splits)

lemma title_of_record:
  assumes "serialize_product R d = Inr p"
  shows "sort_value ''title'' d = (if title p = [] \<and> d ''title'' = None then (1, 0, []) else (3, 0, title p))"
proof (cases "d ''title''")
  case None
  with serialize_product_fields(1)[OF assms] show ?thesis
    by (simp add: sort_value_def dict_get_def)
next
  case (Some v)
  with serialize_product_fields(1)[OF assms] show ?thesis
    by (cases v) (simp_all add: sort_value_def dict_get_def)
qed

lemma title_order:
  assumes "serialize_product R d = Inr p" and "serialize_product R d' = Inr p'"
    and "sort_value ''title'' d \<le> sort_value ''title'' d'"
  shows "title p \<le> title p'"
  using assms(3) title_of_record[OF assms(1)] title_of_record[OF assms(2)]
  by (auto split: if_splits)

lemma list_all2_set2:
  assumes "list_all2 P xs ys" and "y \<in> set ys"
  shows "\<exists>x \<in> set xs. P x y"
  using assms by (induction rule: list_all2_induct) auto

lemma sorted_titles:
  assumes "list_all2 (\<lambda>d p. serialize_product R d = Inr p) docs ps"
    and "sorted (map (sort_value ''title'') docs)"
  shows "sorted (map title ps)"
  using assms
proof (induction docs ps rule: list_all2_induct)
  case Nil
  then show ?case by simp
next
  case (Cons d docs p ps)
  from Cons.prems have tail: "sorted (map (sort_value ''title'') docs)"
    and head: "\<forall>d' \<in> set docs. sort_value ''title'' d \<le> sort_value ''title'' d'"
    by simp_all
  have "title p \<le> title p'" if "p' \<in> set ps" for p'
  proof -
    from list_all2_set2[OF Cons.hyps(2) that]
    obtain d' where d': "d' \<in> set docs" "serialize_product R d' = Inr p'"
      by blast
    from head d'(1) have "sort_value ''title'' d \<le> sort_value ''title'' d'"
      by blast
    from title_order[OF Cons.hyps(1) d'(2) this] show ?thesis .
  qed
  moreover have "sorted (map title ps)"
    using Cons.IH[OF tail] .
  ultimately show ?case by simp
qed

text \<open>
  Claim C9.  With no term, or with the empty string as term, the filter is the
  unrestricted one; when the round trip to the store succeeds, the handler normalizes
  all the stored records, in the order of their titles, and so returns one product for
  each of them.
\<close>

theorem no_term_lists_everything:
  assumes "q = None \<or> q = Some ''''" and "next_ok s"
  shows "build_filter q = MatchAll \<and>
         (\<exists>s'. list_products R (Some s) q =
            (collect (serialize_product R) (sort_key (sort_value ''title'') (product s)),
             Some s')) \<and>
         mset (sort_key (sort_value ''title'') (product s)) = mset (product s) \<and>
         (\<forall>ps. fst (list_products R (Some s) q) = Inr ps \<longrightarrow> length ps = length (product s))"
proof -
  have b: "build_filter q = MatchAll"
    using assms(1) by (auto simp: build_filter_def)
  obtain s' where l: "list_products R (Some s) q =
      (collect (serialize_product R) (sort_key (sort_value ''title'') (product s)), Some s')"
    using list_products_next_ok[OF assms(2), of R q] by (auto simp: b)
  have "length ps = length (product s)" if "fst (list_products R (Some s) q) = Inr ps" for ps
  proof -
    from that l have "collect (serialize_product R)
        (sort_key (sort_value ''title'') (product s)) = Inr ps"
      by simp
    from collect_Inr[OF this] show ?thesis
      by (simp add: list_all2_lengthD[symmetric])
  qed
  with b l show ?thesis by auto
qed

lemma serialize_titled: "serialize_product R (titled i t) = Inr (titled_out i t)"
  by (simp add: serialize_product_def titled_def titled_out_def dict_get_def ProductOut_new_def)

lemma sort_value_titled: "sort_value ''title'' (titled i t) = (3, 0, t)"
  by (simp add: sort_value_def titled_def dict_get_def)

lemma three_shop_sorted:
  "sort_key (sort_value ''title'') (product three_shop) =
     [titled ''65000000000000000000000b'' ''Backpack'',
      titled ''65000000000000000000000c'' ''Desk Lamp'',
      titled ''65000000000000000000000a'' ''Water Bottle'']"
  by (simp add: three_shop_def sort_value_titled)

lemma next_ok_three_shop: "next_ok three_shop"
  by (simp add: next_ok_def three_shop_def shop_def)

lemma list_three_shop:
  "fst (list_products R (Some three_shop) None) =
     Inr [titled_out ''65000000000000000000000b'' ''Backpack'',
          titled_out ''65000000000000000000000c'' ''Desk Lamp'',
          titled_out ''65000000000000000000000a'' ''Water Bottle'']"
proof -
  have "build_filter None = MatchAll" by (simp add: build_filter_def)
  with list_products_next_ok[OF next_ok_three_shop, of R None] show ?thesis
    by (auto simp: three_shop_sorted serialize_titled)
qed

theorem no_term_lists_everything_witness:
  "next_ok three_shop \<and> build_filter None = MatchAll \<and>
   fst (list_products plain_runtime (Some three_shop) None) =
     Inr [titled_out ''65000000000000000000000b'' ''Backpack'',
          titled_out ''65000000000000000000000c'' ''Desk Lamp'',
          titled_out ''65000000000000000000000a'' ''Water Bottle''] \<and>
   length (product three_shop) = 3"
proof -
  have "None = None \<or> None = Some ''''" by simp
  from no_term_lists_everything[OF this next_ok_three_shop, of plain_runtime]
  have "build_filter None = MatchAll" by blast
  moreover have "length (product three_shop) = 3" by (simp add: three_shop_def)
  ultimately show ?thesis using next_ok_three_shop list_three_shop by simp
qed

subsection \<open>The order of the results\<close>

lemma serialized_title:
  assumes "serialize_product R d = Inr p"
  shows "d ''title'' = None \<and> title p = [] \<or> d ''title'' = Some (BStr (title p))"
proof (cases "d ''title''")
  case None
  with serialize_product_fields(1)[OF assms] show ?thesis
    by (simp add: dict_get_def)
next
  case (Some v)
  with serialize_product_fields(1)[OF assms] show ?thesis
    by (cases v) (simp_all add: dict_get_def)
qed

lemma list_all2_set1:
  assumes "list_all2 P xs ys" and "x \<in> set xs"
  shows "\<exists>y \<in> set ys. P x y"
  using assms by (induction rule: list_all2_induct) auto

lemma sort_value_title_key: "sort_value ''title'' d = title_key (d ''title'')"
  by (simp add: sort_value_def title_key_def dict_get_def)

lemma title_key_inj:
  assumes "plain_title k" and "plain_title k'"
  shows "title_key k = title_key k' \<longleftrightarrow> k = k'"
  using assms
  by (auto simp: plain_title_def title_key_def split: option.splits bson.splits)

lemma filter_stored_title:
  assumes "\<forall>d \<in> set xs. plain_title (d ''title'')"
  shows "filter (\<lambda>d. d ''title'' = k) xs =
           (if plain_title k then filter (\<lambda>d. sort_value ''title'' d = title_key k) xs else [])"
proof (cases "plain_title k")
  case True
  have "filter (\<lambda>d. d ''title'' = k) xs
          = filter (\<lambda>d. sort_value ''title'' d = title_key k) xs"
    using assms True by (intro filter_cong refl) (simp add: sort_value_title_key title_key_inj)
  with True show ?thesis by simp
next
  case False
  with assms have "\<forall>d \<in> set xs. d ''title'' \<noteq> k" by auto
  with False show ?thesis by (simp add: filter_empty_conv)
qed

lemma sorted_partition:
  assumes "sorted (map f xs)"
    and "\<forall>x \<in> set xs. \<forall>y \<in> set xs. P x \<longrightarrow> \<not> P y \<longrightarrow> f x < f y"
  shows "xs = filter P xs @ filter (\<lambda>x. \<not> P x) xs"
  using assms
proof (induction xs)
  case Nil
  then show ?case by simp
next
  case (Cons x xs)
  from Cons.prems have tail: "xs = filter P xs @ filter (\<lambda>x. \<not> P x) xs"
    by (intro Cons.IH) auto
  show ?case
  proof (cases "P x")
    case True
    with tail show ?thesis by simp
  next
    case False
    have "\<not> P y" if "y \<in> set xs" for y
    proof
      assume "P y"
      with Cons.prems(2) False that have "f y < f x" by auto
      moreover from Cons.prems(1) that have "f x \<le> f y" by auto
      ultimately show False by simp
    qed
    then have "filter P xs = []" "filter (\<lambda>x. \<not> P x) xs = xs"
      by (simp_all add: filter_empty_conv)
    with False show ?thesis by simp
  qed
qed

lemma title_key_missing_first:
  assumes "plain_title k" and "k \<noteq> None"
  shows "title_key None < title_key k"
  using assms
  by (auto simp: plain_title_def title_key_def split: option.splits bson.splits)

lemma serialize_untitled: "serialize_product R (untitled i) = Inr (titled_out i '''')"
  by (simp add: serialize_product_def untitled_def titled_out_def dict_get_def ProductOut_new_def)

lemma sort_value_untitled: "sort_value ''title'' (untitled i) = (1, 0, [])"
  by (simp add: sort_value_def untitled_def dict_get_def)

text \<open>
  Claim C5 as stated fails for records that are returned with the same title but do not
  store the same one.  A record that stores no title is returned with the empty title,
  and the store sorts it before every record that stores a title: below, the record
  that stores the empty title comes first in the store and second in the result.
\<close>

theorem equal_titles_counterexample:
  "product blank_shop = [titled ''65000000000000000000000a'' '''',
                         untitled ''65000000000000000000000b''] \<and>
   list_products plain_runtime (Some blank_shop) None =
     (Inr [titled_out ''65000000000000000000000b'' '''',
           titled_out ''65000000000000000000000a'' ''''],
      Some (blank_shop\<lparr>calls := [Find MatchAll]\<rparr>)) \<and>
   serialize_product plain_runtime (titled ''65000000000000000000000a'' '''')
     = Inr (titled_out ''65000000000000000000000a'' '''') \<and>
   serialize_product plain_runtime (untitled ''65000000000000000000000b'')
     = Inr (titled_out ''65000000000000000000000b'' '''') \<and>
   title (titled_out ''65000000000000000000000a'' '''')
     = title (titled_out ''65000000000000000000000b'' '''')"
proof -
  have a: "product blank_shop = [titled ''65000000000000000000000a'' '''',
                         untitled ''65000000000000000000000b'']"
    by (simp add: blank_shop_def)
  have s: "sort_key (sort_value ''title'') (product blank_shop) =
      [untitled ''65000000000000000000000b'', titled ''65000000000000000000000a'' '''']"
    by (simp add: blank_shop_def sort_value_titled sort_value_untitled)
  have b: "list_products plain_runtime (Some blank_shop) None =
     (Inr [titled_out ''65000000000000000000000b'' '''',
           titled_out ''65000000000000000000000a'' ''''],
      Some (blank_shop\<lparr>calls := [Find MatchAll]\<rparr>))"
    using s
    by (simp add: list_products_def build_filter_def find_sorted_def round_trip_def
        blank_shop_def shop_def serialize_titled serialize_untitled)
  have c: "title (titled_out ''65000000000000000000000a'' '''')
     = title (titled_out ''65000000000000000000000b'' '''')"
    by (simp add: titled_out_def)
  from a b c show ?thesis by (simp add: serialize_titled serialize_untitled)
qed

text \<open>
  Claim C5 as amended.  The products that List/Search returns are in ascending order of
  their titles (strings compared byte by byte).  They are the normalized forms of the
  matching records, each returned with the title it stores, or with the empty title
  when it stores none.  The records that store the same title are in the natural order
  of the store, and the records that store no title come before all the others.
\<close>

theorem results_sorted_by_title:
  assumes "list_products R (Some s) q = (Inr ps, db')"
  shows "sorted (map title ps) \<and>
         (\<exists>docs.
            list_all2 (\<lambda>d p. serialize_product R d = Inr p \<and>
                             (d ''title'' = None \<and> title p = [] \<or>
                              d ''title'' = Some (BStr (title p)))) docs ps \<and>
            mset docs = mset (filter (matches R (build_filter q)) (product s)) \<and>
            (\<forall>k. filter (\<lambda>d. d ''title'' = k) docs =
                 filter (\<lambda>d. d ''title'' = k)
                   (filter (matches R (build_filter q)) (product s))) \<and>
            docs = filter (\<lambda>d. d ''title'' = None) docs @
                   filter (\<lambda>d. d ''title'' \<noteq> None) docs)"
proof -
  let ?found = "filter (matches R (build_filter q)) (product s)"
  let ?docs = "sort_key (sort_value ''title'') ?found"
  have c: "collect (serialize_product R) ?docs = Inr ps"
    using list_products_Inr[OF assms] .
  have srt: "sorted (map (sort_value ''title'') ?docs)"
    by (rule sorted_sort_key)
  have all: "list_all2 (\<lambda>d p. serialize_product R d = Inr p) ?docs ps"
    using collect_Inr[OF c] .
  have rel: "list_all2 (\<lambda>d p. serialize_product R d = Inr p \<and>
                             (d ''title'' = None \<and> title p = [] \<or>
                              d ''title'' = Some (BStr (title p)))) ?docs ps"
    using all by (rule list_all2_mono) (simp add: serialized_title)
  have plain: "plain_title (d ''title'')" if "d \<in> set ?docs" for d
  proof -
    from list_all2_set1[OF all that] obtain p where "serialize_product R d = Inr p"
      by blast
    from serialized_title[OF this] show ?thesis by (auto simp: plain_title_def)
  qed
  then have plain_docs: "\<forall>d \<in> set ?docs. plain_title (d ''title'')"
    and plain_found: "\<forall>d \<in> set ?found. plain_title (d ''title'')"
    by simp_all
  have ties: "filter (\<lambda>d. d ''title'' = k) ?docs = filter (\<lambda>d. d ''title'' = k) ?found"
    for k
    unfolding filter_stored_title[OF plain_docs] filter_stored_title[OF plain_found]
    by (simp add: sort_key_stable)
  have "\<forall>x \<in> set ?docs. \<forall>y \<in> set ?docs. x ''title'' = None \<longrightarrow> \<not> y ''title'' = None \<longrightarrow>
          sort_value ''title'' x < sort_value ''title'' y"
    using plain_docs by (simp add: sort_value_title_key title_key_missing_first)
  from sorted_partition[OF srt this]
  have first: "?docs = filter (\<lambda>d. d ''title'' = None) ?docs @
                       filter (\<lambda>d. d ''title'' \<noteq> None) ?docs" .
  have "sorted (map title ps)"
    using sorted_titles[OF all srt] .
  moreover have "mset ?docs = mset ?found" by simp
  ultimately show ?thesis
    using rel ties first by blast
qed

lemma mug_shop_sorted:
  "sort_key (sort_value ''title'') (product mug_shop) =
     [titled ''65000000000000000000000b'' ''Cup'',
      titled ''65000000000000000000000a'' ''Mug'',
      titled ''65000000000000000000000c'' ''Mug'']"
  by (simp add: mug_shop_def sort_value_titled)

theorem results_sorted_by_title_witness:
  "product mug_shop = [titled ''65000000000000000000000a'' ''Mug'',
                       titled ''65000000000000000000000b'' ''Cup'',
                       titled ''65000000000000000000000c'' ''Mug''] \<and>
   list_products plain_runtime (Some mug_shop) None =
     (Inr [titled_out ''65000000000000000000000b'' ''Cup'',
           titled_out ''65000000000000000000000a'' ''Mug'',
           titled_out ''65000000000000000000000c'' ''Mug''],
      Some (mug_shop\<lparr>calls := [Find MatchAll]\<rparr>)) \<and>
   map title [titled_out ''65000000000000000000000b'' ''Cup'',
              titled_out ''65000000000000000000000a'' ''Mug'',
              titled_out ''65000000000000000000000c'' ''Mug'']
     = [''Cup'', ''Mug'', ''Mug''] \<and>
   sorted [''Cup'', ''Mug'', ''Mug'']"
proof -
  let ?ps = "[titled_out ''65000000000000000000000b'' ''Cup'',
              titled_out ''65000000000000000000000a'' ''Mug'',
              titled_out ''65000000000000000000000c'' ''Mug'']"
  have p: "product mug_shop = [titled ''65000000000000000000000a'' ''Mug'',
                       titled ''65000000000000000000000b'' ''Cup'',
                       titled ''65000000000000000000000c'' ''Mug'']"
    by (simp add: mug_shop_def)
  have run: "list_products plain_runtime (Some mug_shop) None =
               (Inr ?ps, Some (mug_shop\<lparr>calls := [Find MatchAll]\<rparr>))"
    using mug_shop_sorted
    by (simp add: list_products_def build_filter_def find_sorted_def round_trip_def
        mug_shop_def shop_def serialize_titled)
  have titles: "map title ?ps = [''Cup'', ''Mug'', ''Mug'']"
    by (simp add: titled_out_def)
  from results_sorted_by_title[OF run] have "sorted (map title ?ps)" by blast
  with p run titles show ?thesis by simp
qed

text \<open>The three titles of the specification's example come out in its order.\<close>

lemma three_titles_example:
  "fst (list_products plain_runtime (Some three_shop) None) =
     Inr [titled_out ''65000000000000000000000b'' ''Backpack'',
          titled_out ''65000000000000000000000c'' ''Desk Lamp'',
          titled_out ''65000000000000000000000a'' ''Water Bottle'']"
  by (rule list_three_shop)

subsection \<open>The search term\<close>

lemma match_here_Nil: "match_here ci ps [] \<longleftrightarrow> ps = []"
  by (cases ps) simp_all

lemma match_here_prefix:
  assumes "\<forall>c \<in> set ps. c \<noteq> CHR ''.''"
  shows "match_here True ps cs = prefix (map ascii_lower ps) (map ascii_lower cs)"
  using assms
proof (induction ps arbitrary: cs)
  case Nil
  then show ?case by simp
next
  case (Cons p ps)
  then show ?case by (cases cs) (auto simp: char_match_def)
qed

lemma search_sublist:
  assumes "\<forall>c \<in> set ps. c \<noteq> CHR ''.''"
  shows "search True ps cs = sublist (map ascii_lower ps) (map ascii_lower cs)"
proof (induction cs)
  case Nil
  show ?case by (simp add: match_here_Nil)
next
  case (Cons c cs)
  then show ?case
    using match_here_prefix[OF assms, of "c # cs"] by (simp add: sublist_Cons_right)
qed

lemma plain_term_no_dot:
  assumes "plain_term t"
  shows "\<forall>c \<in> set t. c \<noteq> CHR ''.''"
  using assms by (auto simp: plain_term_def metachars_def)

lemma sublist_map_iff:
  "sublist (map f t) (map f str) \<longleftrightarrow> (\<exists>u. sublist u str \<and> map f t = map f u)"
proof
  assume "sublist (map f t) (map f str)"
  then obtain ps ss where "map f str = ps @ (map f t @ ss)"
    by (auto simp: sublist_def)
  then have "\<exists>us vs. str = us @ vs \<and> ps = map f us \<and> map f t @ ss = map f vs"
    by (simp only: map_eq_append_conv)
  then obtain ps' rest where r: "str = ps' @ rest" and r2: "map f t @ ss = map f rest"
    by blast
  from r2 have "\<exists>us vs. rest = us @ vs \<and> map f t = map f us \<and> ss = map f vs"
    by (simp only: append_eq_map_conv)
  then obtain u ss' where u: "rest = u @ ss'" and m: "map f t = map f u"
    by blast
  from r u have "str = ps' @ u @ ss'" by simp
  then have "sublist u str" unfolding sublist_def by blast
  with m show "\<exists>u. sublist u str \<and> map f t = map f u" by blast
next
  assume "\<exists>u. sublist u str \<and> map f t = map f u"
  then obtain u ps ss where "str = ps @ u @ ss" "map f t = map f u"
    by (auto simp: sublist_def)
  then have "map f str = map f ps @ map f t @ map f ss" by simp
  then show "sublist (map f t) (map f str)"
    unfolding sublist_def by blast
qed

lemma ci_contains_ascii:
  "ci_contains ascii_ci t str \<longleftrightarrow> sublist (map ascii_lower t) (map ascii_lower str)"
  by (auto simp: ci_contains_def ascii_ci_def sublist_map_iff)

lemma plain_runtime_literal: "literal_regex plain_runtime ascii_ci"
  unfolding literal_regex_def
proof (intro allI impI)
  fix t assume t: "plain_term t"
  then have ok: "\<forall>c \<in> set t. c = CHR ''.'' \<or> c \<notin> set metachars"
    by (auto simp: plain_term_def)
  have "search True t = ci_contains ascii_ci t"
    using search_sublist[OF plain_term_no_dot[OF t]] by (auto simp: ci_contains_ascii)
  with ok show "regex_compile plain_runtime t ''i'' = Some (ci_contains ascii_ci t)"
    by (simp add: plain_runtime_def basic_regex_def)
qed

lemma build_filter_term:
  assumes "t \<noteq> []"
  shows "build_filter (Some t) =
           Or [Regex ''title'' t ''i'', Regex ''category'' t ''i'', Regex ''brand'' t ''i'']"
  using assms by (simp add: build_filter_def)

lemma query_ok_term:
  assumes "t \<noteq> []"
  shows "query_ok R (build_filter (Some t)) \<longleftrightarrow> regex_compile R t ''i'' \<noteq> None"
  by (auto simp: build_filter_term[OF assms] split: option.splits)

lemma matches_term:
  assumes "t \<noteq> []" and "regex_compile R t ''i'' = Some m"
  shows "matches R (build_filter (Some t)) d \<longleftrightarrow>
           regex_field m d ''title'' \<or> regex_field m d ''category'' \<or> regex_field m d ''brand''"
  using assms(2)
  by (simp add: build_filter_term[OF assms(1)] regex_field_def split: option.splits bson.splits)

lemma regex_field_literal:
  "regex_field (ci_contains eq t) d f = field_contains eq t d f"
  by (simp add: regex_field_def field_contains_def)

text \<open>
  Claim C1 as stated fails for a term with a metacharacter: the term \<open>.\<close> is contained
  in none of the three fields of the record below (no case folding makes a letter of a
  dot), and List/Search returns the record, because the store reads the dot as "any
  character".
\<close>

theorem dot_term_counterexample:
  "\<not> substring_match ascii_ci ''.'' backpack \<and>
   fst (list_products plain_runtime (Some shop) (Some ''.'')) = Inr [backpack_out]"
proof -
  have a: "\<not> substring_match ascii_ci ''.'' backpack"
    by code_simp
  have r: "regex_compile plain_runtime ''.'' ''i'' = Some (search True ''.'')"
    by (simp add: plain_runtime_def basic_regex_def)
  have m: "matches plain_runtime (build_filter (Some ''.'')) backpack"
    using r by (simp add: build_filter_def backpack_def char_match_def)
  have q: "query_ok plain_runtime (build_filter (Some ''.''))"
    using r by (simp add: build_filter_def)
  have "fst (list_products plain_runtime (Some shop) (Some ''.'')) = Inr [backpack_out]"
    using m q
    by (simp add: list_products_def find_sorted_def round_trip_def shop_def serialize_backpack)
  with a show ?thesis by simp
qed

text \<open>
  Claim C1 as amended.  For a non-empty term and a store whose round trip succeeds:
  the term is handed to the store as the pattern of a case-insensitive regular
  expression, and List/Search returns the records whose title, category or brand is a
  string in which that pattern has a match; a term that the store rejects as a pattern
  makes the request fail.  When the term has no metacharacter, and the store matches
  such a pattern as literal text up to the case of the letters, these are exactly the
  records whose title, category or brand contains the term up to case.  What the same
  letter in another case is, is the store's own matter: the statement holds for every
  case folding \<open>eq\<close>.
\<close>

theorem search_is_regex_match:
  assumes "t \<noteq> []" and "next_ok s"
  shows "(\<forall>m. regex_compile R t ''i'' = Some m \<longrightarrow>
            (\<exists>s'. list_products R (Some s) (Some t) =
               (collect (serialize_product R)
                  (sort_key (sort_value ''title'')
                     (filter (\<lambda>d. regex_field m d ''title'' \<or> regex_field m d ''category'' \<or>
                                  regex_field m d ''brand'')
                        (product s))),
                Some s'))) \<and>
         (regex_compile R t ''i'' = None \<longrightarrow>
            (\<exists>e s'. list_products R (Some s) (Some t) = (Inl e, Some s'))) \<and>
         (literal_regex R eq \<longrightarrow> plain_term t \<longrightarrow>
            (\<exists>s'. list_products R (Some s) (Some t) =
               (collect (serialize_product R)
                  (sort_key (sort_value ''title'')
                     (filter (substring_match eq t) (product s))),
                Some s')))"
proof -
  obtain s' where run: "list_products R (Some s) (Some t) =
           (if query_ok R (build_filter (Some t))
            then collect (serialize_product R)
                   (sort_key (sort_value ''title'')
                      (filter (matches R (build_filter (Some t))) (product s)))
            else Inl (PyMongoError ''Regular expression is invalid''), Some s')"
    using list_products_next_ok[OF assms(2), of R "Some t"] by blast
  have compiled: "list_products R (Some s) (Some t) =
               (collect (serialize_product R)
                  (sort_key (sort_value ''title'')
                     (filter (\<lambda>d. regex_field m d ''title'' \<or> regex_field m d ''category'' \<or>
                                  regex_field m d ''brand'')
                        (product s))),
                Some s')"
    if m: "regex_compile R t ''i'' = Some m" for m
  proof -
    have "matches R (build_filter (Some t)) =
            (\<lambda>d. regex_field m d ''title'' \<or> regex_field m d ''category'' \<or>
                 regex_field m d ''brand'')"
      using matches_term[OF assms(1) m] by (intro ext)
    then show ?thesis
      using run m by (simp add: query_ok_term[OF assms(1)])
  qed
  have rejected: "\<exists>e s'. list_products R (Some s) (Some t) = (Inl e, Some s')"
    if "regex_compile R t ''i'' = None"
    using run that by (simp add: query_ok_term[OF assms(1)])
  have literal: "list_products R (Some s) (Some t) =
               (collect (serialize_product R)
                  (sort_key (sort_value ''title'')
                     (filter (substring_match eq t) (product s))),
                Some s')"
    if "literal_regex R eq" and "plain_term t"
  proof -
    from that have "regex_compile R t ''i'' = Some (ci_contains eq t)"
      by (simp add: literal_regex_def)
    from compiled[OF this] show ?thesis
      by (simp add: regex_field_literal substring_match_def[abs_def])
  qed
  from compiled rejected literal show ?thesis by blast
qed

theorem search_is_regex_match_witness:
  "''PACK'' \<noteq> [] \<and> next_ok shop \<and> literal_regex plain_runtime ascii_ci \<and>
   plain_term ''PACK'' \<and> substring_match ascii_ci ''PACK'' backpack \<and>
   fst (list_products plain_runtime (Some shop) (Some ''PACK'')) = Inr [backpack_out]"
proof -
  have a: "''PACK'' \<noteq> []" by simp
  have b: "next_ok shop" by (simp add: next_ok_def shop_def)
  have c: "plain_term ''PACK''" by (simp add: plain_term_def metachars_def)
  have d: "substring_match ascii_ci ''PACK'' backpack"
    by code_simp
  from search_is_regex_match[OF a b, of plain_runtime ascii_ci] plain_runtime_literal c
  obtain s' where "list_products plain_runtime (Some shop) (Some ''PACK'') =
      (collect (serialize_product plain_runtime)
         (sort_key (sort_value ''title'')
            (filter (substring_match ascii_ci ''PACK'') (product shop))),
       Some s')"
    by blast
  then have "fst (list_products plain_runtime (Some shop) (Some ''PACK'')) = Inr [backpack_out]"
    using d by (simp add: shop_def serialize_backpack)
  with a b c d plain_runtime_literal show ?thesis by blast
qed

end
